theory Spec2Isabelle
  imports Main "HOL-Library.Sublist"
begin

section \<open>Strings, as the Python standard library treats them\<close>

text \<open>
  A Python 2 \<^verbatim>\<open>str\<close> is a byte string: a \<^typ>\<open>string\<close> here. The four characters
  that cannot stand inside a string literal get names.
\<close>

definition sq :: char where "sq = CHR 0x27"
definition dq :: char where "dq = CHR 0x22"
definition bs :: char where "bs = CHR 0x5C"
definition nl :: char where "nl = CHR 0x0A"

text \<open>The class \<^verbatim>\<open>\s\<close> of \<^verbatim>\<open>re\<close> on byte strings: space, \<^verbatim>\<open>\t \n \v \f \r\<close>.\<close>

definition is_space :: "char \<Rightarrow> bool" where
  "is_space c = (c \<in> set [CHR '' '', CHR 0x09, CHR 0x0A, CHR 0x0B, CHR 0x0C, CHR 0x0D])"

text \<open>\<^verbatim>\<open>"%d" % n\<close> for a natural number.\<close>

fun string_of_nat :: "nat \<Rightarrow> string" where
  "string_of_nat n =
     (if n < 10 then [''0123456789'' ! n]
      else string_of_nat (n div 10) @ [''0123456789'' ! (n mod 10)])"

declare string_of_nat.simps [simp del]

text \<open>
  \<^verbatim>\<open>s.replace(old, new)\<close>: the occurrences of \<^verbatim>\<open>old\<close> are found left to right and do not
  overlap; what a deletion brings together is not looked at again.
\<close>

function py_replace :: "string \<Rightarrow> string \<Rightarrow> string \<Rightarrow> string" where
  "py_replace [] new s = new @ concat (map (\<lambda>c. c # new) s)"
| "py_replace (p # ps) new [] = []"
| "py_replace (p # ps) new (c # cs) =
     (if prefix (p # ps) (c # cs) then new @ py_replace (p # ps) new (drop (length ps) cs)
      else c # py_replace (p # ps) new cs)"
  by pat_completeness auto
termination
  by (relation "measure (\<lambda>(old, new, s). length s)") auto

text \<open>\<^verbatim>\<open>s.replace(old, new, 1)\<close>: the first occurrence only.\<close>

fun py_replace1 :: "string \<Rightarrow> string \<Rightarrow> string \<Rightarrow> string" where
  "py_replace1 old new [] = (if old = [] then new else [])"
| "py_replace1 old new (c # cs) =
     (if prefix old (c # cs) then new @ drop (length old) (c # cs)
      else c # py_replace1 old new cs)"

text \<open>\<^verbatim>\<open>s.count(sub)\<close>, non-overlapping occurrences.\<close>

function py_count :: "string \<Rightarrow> string \<Rightarrow> nat" where
  "py_count [] s = Suc (length s)"
| "py_count (p # ps) [] = 0"
| "py_count (p # ps) (c # cs) =
     (if prefix (p # ps) (c # cs) then Suc (py_count (p # ps) (drop (length ps) cs))
      else py_count (p # ps) cs)"
  by pat_completeness auto
termination
  by (relation "measure (\<lambda>(sub, s). length s)") auto

text \<open>\<^verbatim>\<open>s.split(d)\<close> for a separator of one character: never an empty list.\<close>

function py_split :: "char \<Rightarrow> string \<Rightarrow> string list" where
  "py_split d s =
     takeWhile (\<lambda>c. c \<noteq> d) s
     # (case dropWhile (\<lambda>c. c \<noteq> d) s of [] \<Rightarrow> [] | c # rest \<Rightarrow> py_split d rest)"
  by pat_completeness auto
termination
proof (relation "measure (\<lambda>(d, s). length s)")
  show "wf (measure (\<lambda>(d, s). length s))" by simp
next
  fix d :: char and s c rest
  assume "dropWhile (\<lambda>c. c \<noteq> d) s = c # rest"
  then have "length rest < length (dropWhile (\<lambda>c. c \<noteq> d) s)" by simp
  also have "\<dots> \<le> length s" by (rule length_dropWhile_le)
  finally show "((d, rest), (d, s)) \<in> measure (\<lambda>(d, s). length s)" by simp
qed

declare py_split.simps [simp del]

text \<open>\<^verbatim>\<open>sep.join(xs)\<close>.\<close>

fun py_join :: "string \<Rightarrow> string list \<Rightarrow> string" where
  "py_join sep [] = []"
| "py_join sep [x] = x"
| "py_join sep (x # y # ys) = x @ sep @ py_join sep (y # ys)"

text \<open>\<^verbatim>\<open>s.strip()\<close>.\<close>

definition py_strip :: "string \<Rightarrow> string" where
  "py_strip s = rev (dropWhile is_space (rev (dropWhile is_space s)))"

section \<open>The regular expressions of \<^verbatim>\<open>PythonSequence\<close>\<close>

text \<open>
  \<^verbatim>\<open>EXPR_REGEX = re.compile(r"\${(?P<inner>.*?)}", re.DOTALL)\<close>. A match at the head of
  \<open>s\<close>: \<open>s\<close> starts with \<^verbatim>\<open>${\<close> and a \<^verbatim>\<open>}\<close> follows; the group is lazy and the dot
  takes every character, so \<^verbatim>\<open>inner\<close> runs to the first \<^verbatim>\<open>}\<close>. The result is the group
  and what follows the match.
\<close>

definition expr_match :: "string \<Rightarrow> (string \<times> string) option" where
  "expr_match s =
     (if prefix ''${'' s \<and> CHR ''}'' \<in> set (drop 2 s)
      then Some (takeWhile (\<lambda>c. c \<noteq> CHR ''}'') (drop 2 s),
                 tl (dropWhile (\<lambda>c. c \<noteq> CHR ''}'') (drop 2 s)))
      else None)"

lemma expr_match_shorter:
  assumes "expr_match s = Some (inner, rest)"
  shows "length rest < length s"
proof -
  from assms have m: "CHR ''}'' \<in> set (drop 2 s)"
    and r: "rest = tl (dropWhile (\<lambda>c. c \<noteq> CHR ''}'') (drop 2 s))"
    by (auto simp: expr_match_def split: if_splits)
  from m have "dropWhile (\<lambda>c. c \<noteq> CHR ''}'') (drop 2 s) \<noteq> []"
    by (auto simp: dropWhile_eq_Nil_conv)
  then have "length rest < length (dropWhile (\<lambda>c. c \<noteq> CHR ''}'') (drop 2 s))"
    using r by (cases "dropWhile (\<lambda>c. c \<noteq> CHR ''}'') (drop 2 s)") auto
  also have "\<dots> \<le> length (drop 2 s)"
    by (rule length_dropWhile_le)
  also have "\<dots> \<le> length s"
    by simp
  finally show ?thesis .
qed

text \<open>
  \<^verbatim>\<open>EXPR_REGEX.sub(repl, s)\<close>: the matches are looked for left to right, each one is replaced
  by \<open>repl\<close> of its group, and the search goes on behind it.
\<close>

function expr_sub :: "(string \<Rightarrow> string) \<Rightarrow> string \<Rightarrow> string" where
  "expr_sub repl [] = []"
| "expr_sub repl (c # cs) =
     (case expr_match (c # cs) of
        Some (inner, rest) \<Rightarrow> repl inner @ expr_sub repl rest
      | None \<Rightarrow> c # expr_sub repl cs)"
  by pat_completeness auto
termination
  by (relation "measure (\<lambda>(repl, s). length s)") (auto dest: expr_match_shorter)

text \<open>\<^verbatim>\<open>EXPR_REGEX.findall(s)\<close>: the groups of the same matches, in order.\<close>

function expr_findall :: "string \<Rightarrow> string list" where
  "expr_findall [] = []"
| "expr_findall (c # cs) =
     (case expr_match (c # cs) of
        Some (inner, rest) \<Rightarrow> inner # expr_findall rest
      | None \<Rightarrow> expr_findall cs)"
  by pat_completeness auto
termination
  by (relation "measure length") (auto dest: expr_match_shorter)

section \<open>\<^verbatim>\<open>PYPParser\<close>: the preprocessor\<close>

definition DUMMYTEXT :: string where
  "DUMMYTEXT = ''DUMMYTEXT''"

definition dummyline :: string where
  "dummyline = nl # DUMMYTEXT"

text \<open>
  \<^verbatim>\<open>replace_func\<close> of \<^verbatim>\<open>preprocess_text\<close>: the expression on one line, then one dummy line
  for each newline it had.
\<close>

definition replace_func :: "string \<Rightarrow> string" where
  "replace_func innertext =
     (let num_extra_newlines = py_count [nl] innertext
      in ''${'' @ py_replace [nl] '' '' innertext @ ''}''
         @ concat (replicate num_extra_newlines dummyline))"

definition preprocess_text :: "string \<Rightarrow> string" where
  "preprocess_text text = expr_sub replace_func text"

text \<open>
  \<^verbatim>\<open>PYPParser.__init__\<close>: the lines of the preprocessed text, numbered from 1
  (\<^verbatim>\<open>zip(textlines, [1+x for x in range(len(textlines))])\<close>).
\<close>

definition textlines_of :: "string \<Rightarrow> (string \<times> nat) list" where
  "textlines_of text =
     (let textlines = py_split nl (preprocess_text text)
      in zip textlines (map (\<lambda>x. 1 + x) [0..<length textlines]))"

section \<open>The literal-line transformer\<close>

text \<open>\<^verbatim>\<open>escape_quotes\<close> and \<^verbatim>\<open>escape_percent\<close>, the module's two helpers.\<close>

definition escape_quotes :: "string \<Rightarrow> string" where
  "escape_quotes s =
     py_replace [dq] [bs, dq] (py_replace [sq] [bs, sq] (py_replace [bs] [bs, bs] s))"

definition escape_percent :: "string \<Rightarrow> string" where
  "escape_percent s = py_replace ''%'' ''%%'' s"

text \<open>
  \<^verbatim>\<open>PythonSequence.line_to_pythonstatement\<close>. The first argument is \<^verbatim>\<open>self.pypdef\<close>, the only
  attribute the method reads.
\<close>

definition line_to_pythonstatement :: "bool \<Rightarrow> string \<Rightarrow> string" where
  "line_to_pythonstatement self_pypdef line =
     (let exprs = expr_findall line;
          print_func = (if self_pypdef then ''_OUTPUT.append'' else ''_PRINT'');
          parens_statement =
            (if exprs \<noteq> [] then
               (let print_string = escape_quotes (expr_sub (\<lambda>_. ''%s'') (escape_percent line));
                    exprs_cleaned = map (\<lambda>expr. py_replace ''}'' [] (py_replace ''${'' [] expr)) exprs
                in [sq] @ print_string @ [sq] @ '' % '' @ ''(''
                   @ py_join '','' (map (\<lambda>expr. ''('' @ expr @ '')'') exprs_cleaned) @ '',)'')
             else ''('' @ [sq] @ escape_quotes line @ [sq] @ '')'')
      in print_func @ ''('' @ parens_statement @ '')'')"

section \<open>The line classes of the block parser\<close>

text \<open>
  Every pattern below is used with \<^verbatim>\<open>match\<close>, so it is anchored at the start of the line and
  may stop before its end.
\<close>

text \<open>\<^verbatim>\<open>PYP_COMMENT_REGEX = re.compile('\s*##')\<close>.\<close>

definition PYP_COMMENT_match :: "string \<Rightarrow> bool" where
  "PYP_COMMENT_match line = prefix ''##'' (dropWhile is_space line)"

text \<open>\<^verbatim>\<open>DUMMYTEXT_REGEX = re.compile("DUMMYTEXT\s*$")\<close>: the token first, then blanks only.\<close>

definition DUMMYTEXT_match :: "string \<Rightarrow> bool" where
  "DUMMYTEXT_match line =
     (prefix DUMMYTEXT line \<and> list_all is_space (drop (length DUMMYTEXT) line))"

text \<open>\<^verbatim>\<open>PYTHON_BLOCK_START_REGEX = re.compile("\s*<%")\<close> and \<^verbatim>\<open>PYTHON_BLOCK_END_REGEX\<close>.\<close>

definition PYTHON_BLOCK_START_match :: "string \<Rightarrow> bool" where
  "PYTHON_BLOCK_START_match line = prefix ''<%'' (dropWhile is_space line)"

definition PYTHON_BLOCK_END_match :: "string \<Rightarrow> bool" where
  "PYTHON_BLOCK_END_match line = prefix ''%>'' (dropWhile is_space line)"

text \<open>
  The keys of \<^verbatim>\<open>CONTROL_TAGS\<close> and of \<^verbatim>\<open>MIDDLE2START_MAP\<close>. Python 2 orders a dictionary's keys
  by hash; no key of either table is a prefix of another, so at most one alternative of
  \<^verbatim>\<open>(for|if|...)\<close> matches at a position and the order does not matter.
\<close>

definition python_startblock_keywords :: "string list" where
  "python_startblock_keywords =
     [''for'', ''if'', ''try'', ''while'', ''def'', ''pypdef'', ''class'', ''with'']"

definition MIDDLE2START_MAP :: "(string \<times> string) list" where
  "MIDDLE2START_MAP =
     [(''elif'', ''if''), (''else'', ''if''), (''except'', ''try''), (''finally'', ''try'')]"

definition middle_keywords :: "string list" where
  "middle_keywords = map fst MIDDLE2START_MAP"

text \<open>The alternation \<^verbatim>\<open>(k1|k2|...)\<close> at the head of \<open>s\<close>: the keyword and what follows it.\<close>

fun match_keyword :: "string list \<Rightarrow> string \<Rightarrow> (string \<times> string) option" where
  "match_keyword [] s = None"
| "match_keyword (k # ks) s =
     (if prefix k s then Some (k, drop (length k) s) else match_keyword ks s)"

text \<open>
  \<^verbatim>\<open>\s*%\s*\<close> at the head of the line: what follows it. Both stars are greedy and what
  comes next is never a blank, so there is one way to match.
\<close>

definition after_percent :: "string \<Rightarrow> string option" where
  "after_percent line =
     (case dropWhile is_space line of
        [] \<Rightarrow> None
      | c # cs \<Rightarrow> if c = CHR ''%'' then Some (dropWhile is_space cs) else None)"

text \<open>
  \<^verbatim>\<open>.*:\<close> at the head of \<open>s\<close>: the dot stops at a newline and the star is greedy, so the match
  ends with the last colon of the line.
\<close>

definition upto_last_colon :: "string \<Rightarrow> string option" where
  "upto_last_colon s =
     (let seg = takeWhile (\<lambda>c. c \<noteq> nl) s
      in if CHR '':'' \<in> set seg
         then Some (rev (dropWhile (\<lambda>c. c \<noteq> CHR '':'') (rev seg)))
         else None)"

text \<open>
  \<^verbatim>\<open>"\s*%\s*(({key}).*:)"\<close> over a table of keywords: groups 1 and 2
  (\<^verbatim>\<open>control_statement\<close>, \<^verbatim>\<open>control_word\<close>).
\<close>

definition control_match :: "string list \<Rightarrow> string \<Rightarrow> (string \<times> string) option" where
  "control_match keys line =
     (case after_percent line of
        None \<Rightarrow> None
      | Some r \<Rightarrow>
          (case match_keyword keys r of
             None \<Rightarrow> None
           | Some (k, r') \<Rightarrow>
               (case upto_last_colon r' of
                  None \<Rightarrow> None
                | Some t \<Rightarrow> Some (k @ t, k))))"

definition CONTROL_START_match :: "string \<Rightarrow> (string \<times> string) option" where
  "CONTROL_START_match line = control_match python_startblock_keywords line"

definition CONTROL_MIDDLE_match :: "string \<Rightarrow> (string \<times> string) option" where
  "CONTROL_MIDDLE_match line = control_match middle_keywords line"

text \<open>\<^verbatim>\<open>"\s*%\s*end({key})"\<close>: group 1.\<close>

definition CONTROL_END_match :: "string \<Rightarrow> string option" where
  "CONTROL_END_match line =
     (case after_percent line of
        None \<Rightarrow> None
      | Some r \<Rightarrow>
          if prefix ''end'' r
          then map_option fst (match_keyword python_startblock_keywords (drop 3 r))
          else None)"

text \<open>\<^verbatim>\<open>NORMAL_PYTHON_LINE_REGEX = re.compile("\s*%\s*(.*)")\<close>: group 1.\<close>

definition NORMAL_PYTHON_LINE_match :: "string \<Rightarrow> string option" where
  "NORMAL_PYTHON_LINE_match line =
     map_option (takeWhile (\<lambda>c. c \<noteq> nl)) (after_percent line)"

section \<open>The tree\<close>

text \<open>
  \<^verbatim>\<open>PythonLine\<close>: the text, the flag \<^verbatim>\<open>noindent\<close> and the indent level, which is 0 until the
  generator sets it.
\<close>

datatype PythonLine = PythonLine (string: string) (noindent: bool) (indent_levels: nat)

definition new_PythonLine :: "string \<Rightarrow> PythonLine" where
  "new_PythonLine s = PythonLine s False 0"

definition INDENT :: string where
  "INDENT = ''    ''"

definition set_indent :: "PythonLine \<Rightarrow> nat \<Rightarrow> PythonLine" where
  "set_indent l indent_level =
     (if \<not> noindent l then PythonLine (string l) (noindent l) indent_level else l)"

definition get_indented :: "PythonLine \<Rightarrow> string" where
  "get_indented l = concat (replicate (indent_levels l) INDENT) @ string l"

text \<open>
  A node of a sequence is a \<^verbatim>\<open>PythonLine\<close> or a nested \<^verbatim>\<open>PythonIndentedSequence\<close>. Of a nested
  sequence the parent reads \<^verbatim>\<open>python_linenum\<close> and \<^verbatim>\<open>python_line_map\<close> once, when it takes the
  block in, and the generator reads \<^verbatim>\<open>control_blocks\<close>; the node keeps the latter.
\<close>

datatype node = Line PythonLine | IndentedSequence "PythonControlBlock list"
  and PythonControlBlock =
    PythonControlBlock (block_statement: PythonLine) (block_word: string) (block_nodes: "node list")

text \<open>
  \<^verbatim>\<open>PythonSequence\<close> and its subclass \<^verbatim>\<open>PythonIndentedSequence\<close> (\<open>indented\<close>), as the parser
  holds them. \<^verbatim>\<open>curr_node_list\<close> is an alias: of \<^verbatim>\<open>self.nodes\<close> in the root (\<open>None\<close>), of
  the node list of a control block in an indented sequence (\<open>Some i\<close>, the block's index
  in \<^verbatim>\<open>control_blocks\<close>). The root has no \<^verbatim>\<open>control_blocks\<close> and no \<^verbatim>\<open>control_linenum\<close>; they
  are read only where \<^verbatim>\<open>control_word\<close> is not \<^verbatim>\<open>None\<close>.
\<close>

record PythonSequence =
  control_statement :: "PythonLine option"
  control_word :: "string option"
  control_linenum :: nat
  nodes :: "node list"
  control_blocks :: "PythonControlBlock list"
  curr_node_list :: "nat option"
  indented :: bool
  python_linenum :: nat
  python_line_map :: "nat \<rightharpoonup> nat"
  pypdef :: bool

text \<open>\<^verbatim>\<open>PythonSequence.__init__\<close>.\<close>

definition new_PythonSequence :: "nat \<Rightarrow> PythonSequence" where
  "new_PythonSequence start_linenum =
     \<lparr>control_statement = None, control_word = None, control_linenum = 0, nodes = [],
      control_blocks = [], curr_node_list = None, indented = False,
      python_linenum = start_linenum, python_line_map = Map.empty, pypdef = False\<rparr>"

text \<open>\<^verbatim>\<open>PythonIndentedSequence.__init__\<close>: one control block, which takes the new nodes.\<close>

definition new_PythonIndentedSequence ::
  "PythonLine \<Rightarrow> string \<Rightarrow> nat \<Rightarrow> bool \<Rightarrow> nat \<Rightarrow> PythonSequence" where
  "new_PythonIndentedSequence statement word start_linenum is_pypdef linenum =
     \<lparr>control_statement = Some statement, control_word = Some word,
      control_linenum = linenum, nodes = [],
      control_blocks = [PythonControlBlock statement word []], curr_node_list = Some 0,
      indented = True, python_linenum = start_linenum, python_line_map = Map.empty,
      pypdef = is_pypdef\<rparr>"

text \<open>\<^verbatim>\<open>self.curr_node_list.append(node)\<close>, through the alias.\<close>

definition append_node :: "PythonSequence \<Rightarrow> node \<Rightarrow> PythonSequence" where
  "append_node self n =
     (case curr_node_list self of
        None \<Rightarrow> self\<lparr>nodes := nodes self @ [n]\<rparr>
      | Some i \<Rightarrow>
          self\<lparr>control_blocks := (control_blocks self)
            [i := (case control_blocks self ! i of
                     PythonControlBlock st w ns \<Rightarrow> PythonControlBlock st w (ns @ [n]))]\<rparr>)"

text \<open>\<^verbatim>\<open>add_node(node, linenum=None, update_linemap=True)\<close>.\<close>

definition add_node :: "PythonSequence \<Rightarrow> node \<Rightarrow> nat option \<Rightarrow> bool \<Rightarrow> PythonSequence" where
  "add_node self n linenum update_linemap =
     (let self1 = append_node self n
      in if update_linemap then
           (let self2 = (case linenum of
                           Some k \<Rightarrow> self1\<lparr>python_line_map :=
                                       (python_line_map self1)(python_linenum self1 \<mapsto> k)\<rparr>
                         | None \<Rightarrow> self1)
            in self2\<lparr>python_linenum := python_linenum self2 + 1\<rparr>)
         else self1)"

text \<open>\<^verbatim>\<open>map_increment_linenum\<close> and \<^verbatim>\<open>update_python_linemap\<close>.\<close>

definition map_increment_linenum :: "PythonSequence \<Rightarrow> nat \<Rightarrow> PythonSequence" where
  "map_increment_linenum self linenum =
     self\<lparr>python_line_map := (python_line_map self)(python_linenum self \<mapsto> linenum),
          python_linenum := python_linenum self + 1\<rparr>"

definition update_python_linemap :: "PythonSequence \<Rightarrow> nat \<Rightarrow> PythonSequence" where
  "update_python_linemap self linenum =
     self\<lparr>python_line_map := (python_line_map self)(python_linenum self \<mapsto> linenum)\<rparr>"

section \<open>Verbatim blocks\<close>

datatype error = ParseError string string nat | IndexError

text \<open>\<^verbatim>\<open>len(re.findall(r"\"\"\"|\'\'\'", line))\<close>: the triple quotes of a line, left to right.\<close>

function count_triples :: "string \<Rightarrow> nat" where
  "count_triples [] = 0"
| "count_triples (c # cs) =
     (if prefix [dq, dq, dq] (c # cs) \<or> prefix [sq, sq, sq] (c # cs)
      then Suc (count_triples (drop 2 cs))
      else count_triples cs)"
  by pat_completeness auto
termination
  by (relation "measure length") auto

text \<open>\<^verbatim>\<open>SPACE_COMMENT_REGEX = re.compile("(\s*$)|(\s*#)")\<close>: a blank line or a Python comment.\<close>

definition SPACE_COMMENT_match :: "string \<Rightarrow> bool" where
  "SPACE_COMMENT_match line =
     (list_all is_space line \<or> prefix ''#'' (dropWhile is_space line))"

text \<open>
  \<^verbatim>\<open>re.sub("\s{%s}" % min_spaces, '', s, count=1)\<close>. With a number \<open>n\<close> the pattern is a run
  of \<open>n\<close> blanks, and the first such run of the string is deleted, wherever it stands.
  While \<^verbatim>\<open>min_spaces\<close> is \<^verbatim>\<open>None\<close> the pattern reads \<^verbatim>\<open>\s{None}\<close>, in which the brace is no
  quantifier: one blank and then the six characters \<^verbatim>\<open>{None}\<close>.
\<close>

fun sub_spaces :: "nat \<Rightarrow> string \<Rightarrow> string" where
  "sub_spaces n [] = []"
| "sub_spaces n (c # cs) =
     (if n \<le> length (c # cs) \<and> list_all is_space (take n (c # cs)) then drop n (c # cs)
      else c # sub_spaces n cs)"

fun sub_space_None :: "string \<Rightarrow> string" where
  "sub_space_None [] = []"
| "sub_space_None (c # cs) =
     (if is_space c \<and> prefix ''{None}'' cs then drop 6 cs else c # sub_space_None cs)"

definition strip_indent :: "nat option \<Rightarrow> string \<Rightarrow> string" where
  "strip_indent min_spaces s =
     (case min_spaces of None \<Rightarrow> sub_space_None s | Some n \<Rightarrow> sub_spaces n s)"

text \<open>
  The first loop of \<^verbatim>\<open>_process_python_block\<close>, with its four variables; \<^verbatim>\<open>lines.pop(0)\<close> on
  an empty list raises \<^verbatim>\<open>IndexError\<close>.
\<close>

fun collect_block ::
  "(PythonLine \<times> nat) list \<Rightarrow> nat option \<Rightarrow> bool \<Rightarrow> bool \<Rightarrow> (string \<times> nat) list
   \<Rightarrow> error + ((PythonLine \<times> nat) list \<times> nat option \<times> (string \<times> nat) list)" where
  "collect_block compound_block min_spaces in_triplequotes in_triplequotes_next [] =
     Inl IndexError"
| "collect_block compound_block min_spaces in_triplequotes in_triplequotes_next
     ((line, linenum) # lines) =
     (if PYTHON_BLOCK_END_match line then Inr (compound_block, min_spaces, lines)
      else
        (let triples = count_triples line;
             next' = (if triples mod 2 \<noteq> 0 then \<not> in_triplequotes_next
                      else in_triplequotes_next);
             compound_block' = compound_block @ [(PythonLine line in_triplequotes 0, linenum)];
             min_spaces' =
               (if min_spaces = None \<and> \<not> SPACE_COMMENT_match line
                then Some (length (takeWhile is_space line))
                else min_spaces)
         in collect_block compound_block' min_spaces' next' next' lines))"

text \<open>The second loop: the prefix goes from the lines that are not \<^verbatim>\<open>noindent\<close>.\<close>

definition fix_line :: "nat option \<Rightarrow> PythonLine \<times> nat \<Rightarrow> PythonLine \<times> nat" where
  "fix_line min_spaces x =
     (case x of (pythonline, linenum) \<Rightarrow>
        if \<not> noindent pythonline
        then (PythonLine (strip_indent min_spaces (string pythonline)) (noindent pythonline)
                (indent_levels pythonline), linenum)
        else (pythonline, linenum))"

definition process_python_block ::
  "(string \<times> nat) list \<Rightarrow> error + ((PythonLine \<times> nat) list \<times> (string \<times> nat) list)" where
  "process_python_block lines =
     (case collect_block [] None False False lines of
        Inl e \<Rightarrow> Inl e
      | Inr (compound_block, min_spaces, lines') \<Rightarrow>
          Inr (map (fix_line min_spaces) compound_block, lines'))"

section \<open>The block parser\<close>

text \<open>The four messages of \<^verbatim>\<open>ParseError\<close>.\<close>

definition str_of_statement :: "PythonLine option \<Rightarrow> string" where
  "str_of_statement st = (case st of None \<Rightarrow> ''None'' | Some l \<Rightarrow> string l)"

definition middle_without_start :: "string \<Rightarrow> string" where
  "middle_without_start word =
     ''Found middle control word ('' @ word @ '') without starting word''"

definition middle_mismatch :: "PythonSequence \<Rightarrow> string \<Rightarrow> string" where
  "middle_mismatch self word =
     ''Middle control word ('' @ word @ '') doesn'' @ [sq] @ ''t match current block ('' @ [sq]
     @ str_of_statement (control_statement self) @ '', line ''
     @ string_of_nat (control_linenum self) @ [sq] @ '')''"

definition end_without_start :: "string \<Rightarrow> string" where
  "end_without_start word =
     ''Found end control word (end'' @ word @ '') without starting word''"

definition end_mismatch :: "PythonSequence \<Rightarrow> string \<Rightarrow> string" where
  "end_mismatch self word =
     ''End control word (end'' @ word @ '') doesn'' @ [sq] @ ''t match current block ('' @ [sq]
     @ str_of_statement (control_statement self) @ '', line ''
     @ string_of_nat (control_linenum self) @ [sq] @ '')''"

text \<open>The statement that ends a \<^verbatim>\<open>pypdef\<close>: \<^verbatim>\<open>r"return '\n'.join(_OUTPUT)"\<close>.\<close>

definition return_OUTPUT :: string where
  "return_OUTPUT = ''return '' @ [sq, bs] @ ''n'' @ [sq] @ ''.join(_OUTPUT)''"

text \<open>
  What one turn of the loop of \<^verbatim>\<open>parse_lines\<close> does with the line it popped: go on with the
  next line (\<open>Continue\<close>, with the sequence and the lines left), open a block whose body
  is parsed by a recursive call (\<open>Nested\<close>, with the sequence and the new block), leave
  the loop (\<open>Break\<close>) or raise.
\<close>

datatype parsed =
    Continue PythonSequence "(string \<times> nat) list"
  | Nested PythonSequence PythonSequence
  | Break PythonSequence
  | Raise error

text \<open>The branches of the loop body from the verbatim block on: \<open>line\<close> has lost its dummy text.\<close>

definition dispatch_line ::
  "PythonSequence \<Rightarrow> string \<Rightarrow> nat \<Rightarrow> (string \<times> nat) list \<Rightarrow> parsed" where
  "dispatch_line self line linenum lines =
     (if PYTHON_BLOCK_START_match line then
        (case process_python_block lines of
           Inl e \<Rightarrow> Raise e
         | Inr (compound_block, lines') \<Rightarrow>
             Continue (fold (\<lambda>(pythonline, k) s. add_node s (Line pythonline) (Some k) True)
                         compound_block self) lines')
      else case CONTROL_START_match line of
        Some (statement, word) \<Rightarrow>
          (let self1 = update_python_linemap self linenum;
               is_pypdef = ((indented self1 \<and> pypdef self1) \<or> word = ''pypdef'');
               statement' = (if word = ''pypdef'' then py_replace1 ''pypdef'' ''def'' statement
                             else statement);
               new_block = new_PythonIndentedSequence (new_PythonLine statement') word
                             (python_linenum self1 + 1) is_pypdef linenum;
               new_block' = (if is_pypdef \<and> word = ''pypdef''
                             then add_node new_block (Line (new_PythonLine ''_OUTPUT=[]'')) None True
                             else new_block)
           in Nested self1 new_block')
      | None \<Rightarrow>
      (case CONTROL_MIDDLE_match line of
        Some (statement, word) \<Rightarrow>
          (let self1 = map_increment_linenum self linenum
           in if control_word self1 = None
              then Raise (ParseError (middle_without_start word) line linenum)
              else if map_of MIDDLE2START_MAP word \<noteq> control_word self1
              then Raise (ParseError (middle_mismatch self1 word) line linenum)
              else Continue
                     (self1\<lparr>control_blocks := control_blocks self1
                               @ [PythonControlBlock (new_PythonLine statement) word []],
                            curr_node_list := Some (length (control_blocks self1))\<rparr>)
                     lines)
      | None \<Rightarrow>
      (case CONTROL_END_match line of
        Some end_word \<Rightarrow>
          (let self1 = (if end_word = ''pypdef''
                        then add_node self (Line (new_PythonLine return_OUTPUT)) None True
                        else self)
           in if control_word self1 = None
              then Raise (ParseError (end_without_start end_word) line linenum)
              else if Some end_word \<noteq> control_word self1
              then Raise (ParseError (end_mismatch self1 end_word) line linenum)
              else Break self1)
      | None \<Rightarrow>
      (case NORMAL_PYTHON_LINE_match line of
        Some python_statement \<Rightarrow>
          Continue (add_node self (Line (new_PythonLine python_statement)) (Some linenum) True)
            lines
      | None \<Rightarrow>
          Continue (add_node self
                      (Line (new_PythonLine (line_to_pythonstatement (pypdef self) line)))
                      (Some linenum) True)
            lines))))"

text \<open>
  The loop body from its top: a comment or a dummy line is skipped, any other line has
  every \<^verbatim>\<open>DUMMYTEXT\<close> taken out before it is looked at.
\<close>

definition parse_line ::
  "PythonSequence \<Rightarrow> string \<times> nat \<Rightarrow> (string \<times> nat) list \<Rightarrow> parsed" where
  "parse_line self x lines =
     (case x of (line, linenum) \<Rightarrow>
        if PYP_COMMENT_match line \<or> DUMMYTEXT_match line then Continue self lines
        else dispatch_line self (py_replace DUMMYTEXT [] line) linenum lines)"

text \<open>
  What the parent does when the recursive call returns: the block becomes a node, the
  line counter goes on where the block's stopped, and the block's line map is merged.
\<close>

definition close_block :: "PythonSequence \<Rightarrow> PythonSequence \<Rightarrow> PythonSequence" where
  "close_block self new_block =
     (let self1 = add_node self (IndentedSequence (control_blocks new_block)) None True;
          self2 = self1\<lparr>python_linenum := python_linenum new_block\<rparr>
      in self2\<lparr>python_line_map := python_line_map self2 ++ python_line_map new_block\<rparr>)"

lemma collect_block_shorter:
  "collect_block cb ms q qn lines = Inr (cb', ms', lines') \<Longrightarrow> length lines' < length lines"
proof (induction cb ms q qn lines rule: collect_block.induct)
  case (1 cb ms q qn)
  then show ?case by simp
next
  case (2 cb ms q qn line linenum lines)
  show ?case
  proof (cases "PYTHON_BLOCK_END_match line")
    case True
    with 2(2) show ?thesis by auto
  next
    case False
    with 2(2) have "length lines' < length lines"
      by (intro 2(1)) (auto simp: Let_def)
    then show ?thesis by simp
  qed
qed

lemma parse_line_shorter:
  assumes "parse_line self x lines = Continue self' lines'"
  shows "length lines' \<le> length lines"
proof -
  obtain line linenum where x: "x = (line, linenum)"
    by (cases x)
  show ?thesis
  proof (cases "PYP_COMMENT_match line \<or> DUMMYTEXT_match line")
    case True
    with assms x show ?thesis by (auto simp: parse_line_def)
  next
    case False
    with assms x
    have d: "dispatch_line self (py_replace DUMMYTEXT [] line) linenum lines = Continue self' lines'"
      by (auto simp: parse_line_def)
    show ?thesis
    proof (cases "PYTHON_BLOCK_START_match (py_replace DUMMYTEXT [] line)")
      case True
      with d obtain block where "process_python_block lines = Inr (block, lines')"
        by (auto simp: dispatch_line_def split: sum.splits)
      then show ?thesis
        by (auto simp: process_python_block_def split: sum.splits
            dest: collect_block_shorter)
    next
      case False
      with d have "lines' = lines"
        by (auto simp: dispatch_line_def Let_def split: option.splits if_splits)
      then show ?thesis by simp
    qed
  qed
qed

text \<open>
  \<^verbatim>\<open>parse_lines\<close>: the loop runs while lines are left; the recursive call for a block takes
  its lines from the same list, and the loop goes on with what the call has left.
\<close>

function parse_lines ::
  "PythonSequence \<Rightarrow> (string \<times> nat) list \<Rightarrow> error + (PythonSequence \<times> (string \<times> nat) list)" where
  "parse_lines self [] = Inr (self, [])"
| "parse_lines self (x # lines) =
     (case parse_line self x lines of
        Continue self' lines' \<Rightarrow> parse_lines self' lines'
      | Nested self' new_block \<Rightarrow>
          (case parse_lines new_block lines of
             Inl e \<Rightarrow> Inl e
           | Inr (block, lines') \<Rightarrow> parse_lines (close_block self' block) lines')
      | Break self' \<Rightarrow> Inr (self', lines)
      | Raise e \<Rightarrow> Inl e)"
  by pat_completeness auto

lemma parse_lines_dom_shorter:
  "parse_lines_dom (self, lines) \<Longrightarrow> parse_lines self lines = Inr (self', lines')
   \<Longrightarrow> length lines' \<le> length lines"
proof (induction self lines arbitrary: self' lines' rule: parse_lines.pinduct)
  case (1 self)
  then show ?case by (simp add: parse_lines.psimps)
next
  case (2 self x lines)
  show ?case
  proof (cases "parse_line self x lines")
    case (Continue s ls)
    with 2(5) 2(1) have "parse_lines s ls = Inr (self', lines')"
      by (simp add: parse_lines.psimps)
    then have "length lines' \<le> length ls"
      using 2(2) Continue by blast
    moreover have "length ls \<le> length lines"
      using Continue by (rule parse_line_shorter)
    ultimately show ?thesis by simp
  next
    case (Nested s nb)
    with 2(5) 2(1) obtain b ls where b: "parse_lines nb lines = Inr (b, ls)"
      and r: "parse_lines (close_block s b) ls = Inr (self', lines')"
      by (auto simp: parse_lines.psimps split: sum.splits)
    have "length ls \<le> length lines"
      using 2(3) Nested b by blast
    moreover have "length lines' \<le> length ls"
      using 2(4) Nested b r by blast
    ultimately show ?thesis by simp
  next
    case (Break s)
    with 2(5) 2(1) show ?thesis by (simp add: parse_lines.psimps)
  next
    case (Raise e)
    with 2(5) 2(1) show ?thesis by (simp add: parse_lines.psimps)
  qed
qed

termination parse_lines
proof (relation "measure (\<lambda>(self, lines). length lines)")
  show "wf (measure (\<lambda>(self, lines). length lines))" by simp
next
  fix self x lines s ls
  assume "parse_line self x lines = Continue s ls"
  then have "length ls \<le> length lines" by (rule parse_line_shorter)
  then show "((s, ls), (self, x # lines)) \<in> measure (\<lambda>(self, lines). length lines)"
    by simp
next
  fix self :: PythonSequence and x :: "string \<times> nat" and lines :: "(string \<times> nat) list"
    and nb :: PythonSequence
  show "((nb, lines), (self, x # lines)) \<in> measure (\<lambda>(self, lines). length lines)"
    by simp
next
  fix self x lines s nb r b ls
  assume "parse_lines nb lines = Inr r" and "(b, ls) = r" and "parse_lines_dom (nb, lines)"
  then have "length ls \<le> length lines"
    using parse_lines_dom_shorter [of nb lines b ls] by simp
  then show "((close_block s b, ls), (self, x # lines))
      \<in> measure (\<lambda>(self, lines). length lines)"
    by simp
qed

declare parse_lines.simps [simp del]

section \<open>The code generator\<close>

text \<open>
  \<^verbatim>\<open>get_lines_from_nodes\<close> and \<^verbatim>\<open>PythonIndentedSequence.get_lines\<close> (over the control blocks of
  a nested sequence).
\<close>

fun get_lines_from_nodes :: "node list \<Rightarrow> nat \<Rightarrow> PythonLine list"
  and get_lines_indented :: "PythonControlBlock list \<Rightarrow> nat \<Rightarrow> PythonLine list" where
  "get_lines_from_nodes [] indent_level = []"
| "get_lines_from_nodes (Line l # ns) indent_level =
     set_indent l indent_level # get_lines_from_nodes ns indent_level"
| "get_lines_from_nodes (IndentedSequence blocks # ns) indent_level =
     get_lines_indented blocks indent_level @ get_lines_from_nodes ns indent_level"
| "get_lines_indented [] indent_level = []"
| "get_lines_indented (PythonControlBlock st w ns # blocks) indent_level =
     set_indent st indent_level
     # (if ns \<noteq> [] then get_lines_from_nodes ns (indent_level + 1) else [])
     @ get_lines_indented blocks indent_level"

definition get_lines :: "PythonSequence \<Rightarrow> nat \<Rightarrow> PythonLine list" where
  "get_lines self indent_level =
     (if indented self then get_lines_indented (control_blocks self) indent_level
      else get_lines_from_nodes (nodes self) indent_level)"

definition get_python_text :: "PythonSequence \<Rightarrow> string" where
  "get_python_text self = py_join [nl] (map get_indented (get_lines self 0))"

section \<open>\<^verbatim>\<open>PYPParser\<close>: running the generated program\<close>

text \<open>
  What the program does to the world, in order: it opens files for writing, writes to
  them, closes, renames and removes them, and writes to the standard output.
\<close>

datatype event =
    Open_w string
  | Write string string
  | Close string
  | Rename string string
  | Remove string
  | Stdout string

text \<open>\<^verbatim>\<open>print s\<close>.\<close>

definition print :: "string \<Rightarrow> event" where
  "print s = Stdout (s @ [nl])"

text \<open>
  An entry of \<^verbatim>\<open>traceback.extract_tb\<close>: file name, line number, function name and text
  (which may be \<^verbatim>\<open>None\<close>). The outermost frame comes first.
\<close>

type_synonym tb_packet = "string \<times> nat \<times> string \<times> string option"

text \<open>\<^verbatim>\<open>traceback.format_list\<close> of the standard library.\<close>

definition format_packet :: "tb_packet \<Rightarrow> string" where
  "format_packet p =
     (case p of (filename, lineno, name, line) \<Rightarrow>
        ''  File '' @ [dq] @ filename @ [dq] @ '', line '' @ string_of_nat lineno @ '', in ''
        @ name @ [nl]
        @ (case line of
             None \<Rightarrow> []
           | Some l \<Rightarrow> if l \<noteq> [] then ''    '' @ py_strip l @ [nl] else []))"

definition format_list :: "tb_packet list \<Rightarrow> string list" where
  "format_list extracted_list = map format_packet extracted_list"

text \<open>
  What \<^verbatim>\<open>runpy.run_module\<close> did with the generated module: the lines it gave to \<^verbatim>\<open>_PRINT\<close>, and
  how it ended. A \<^verbatim>\<open>SyntaxError\<close> (or a subclass) carries its \<^verbatim>\<open>lineno\<close>, which may be \<^verbatim>\<open>None\<close>,
  the name of its class, \<^verbatim>\<open>str(exc_value)\<close> and the text of
  \<^verbatim>\<open>traceback.format_exception_only\<close>; any other exception carries the name of its class,
  \<^verbatim>\<open>str(exc_value)\<close> and the extracted traceback.
\<close>

datatype run_result =
    Success
  | Syntax_error "nat option" string string string
  | Exception string string "tb_packet list"

record program_run =
  printed :: "string list"
  result :: run_result

record PYPParser =
  debug :: bool
  textlines :: "(string \<times> nat) list"
  parser_line_map :: "nat \<rightharpoonup> nat"
  input_filename :: string

text \<open>\<^verbatim>\<open>PYPParser.__init__\<close>.\<close>

definition new_PYPParser :: "string \<Rightarrow> bool \<Rightarrow> string \<Rightarrow> PYPParser" where
  "new_PYPParser text dbg name =
     \<lparr>debug = dbg, textlines = textlines_of text, parser_line_map = Map.empty,
      input_filename = name\<rparr>"

text \<open>\<^verbatim>\<open>xs[i]\<close>: a negative index counts from the end, an index out of range raises.\<close>

definition py_index :: "'a list \<Rightarrow> int \<Rightarrow> error + 'a" where
  "py_index xs i =
     (if 0 \<le> i \<and> i < int (length xs) then Inr (xs ! nat i)
      else if i < 0 \<and> - int (length xs) \<le> i then Inr (xs ! nat (int (length xs) + i))
      else Inl IndexError)"

text \<open>
  \<^verbatim>\<open>_get_pyp_errorline\<close>: \<open>None\<close> stands for the pair \<^verbatim>\<open>(None, None)\<close>. The line number of a
  syntax error may be \<^verbatim>\<open>None\<close>, which is no key of the map.
\<close>

definition get_pyp_errorline ::
  "PYPParser \<Rightarrow> nat option \<Rightarrow> error + (nat \<times> string) option" where
  "get_pyp_errorline self error_linenum =
     (case error_linenum of
        None \<Rightarrow> Inr None
      | Some g \<Rightarrow>
          (case parser_line_map self g of
             None \<Rightarrow> Inr None
           | Some source_linenum \<Rightarrow>
               (case py_index (textlines self) (int source_linenum - 1) of
                  Inl e \<Rightarrow> Inl e
                | Inr entry \<Rightarrow> Inr (Some (source_linenum, fst entry)))))"

definition source_location :: "string \<Rightarrow> nat \<Rightarrow> string" where
  "source_location name source_linenum =
     ''File '' @ [dq] @ name @ [dq] @ '', line '' @ string_of_nat source_linenum"

text \<open>The handler of \<^verbatim>\<open>except SyntaxError\<close>.\<close>

definition report_syntax_error ::
  "PYPParser \<Rightarrow> nat option \<Rightarrow> string \<Rightarrow> string \<Rightarrow> string \<Rightarrow> error + event list" where
  "report_syntax_error self error_linenum exc_name exc_value exception_text =
     (case get_pyp_errorline self error_linenum of
        Inl e \<Rightarrow> Inl e
      | Inr r \<Rightarrow>
          Inr ([print [], print ''======= SYNTAX ERROR ============='']
               @ (case r of
                    Some (source_linenum, line_text) \<Rightarrow>
                      [print (source_location (input_filename self) source_linenum),
                       print (''  '' @ line_text)]
                  | None \<Rightarrow> [print ''Sorry, could not find pyp source line''])
               @ [print (exc_name @ '': '' @ exc_value),
                  print [], print ''DETAILED SYNTAX ERROR:'', print exception_text,
                  print ''==================================='']))"

text \<open>The loop under \<^verbatim>\<open>PYP TRACEBACK:\<close>, which runs in debug mode.\<close>

fun pyp_traceback :: "PYPParser \<Rightarrow> tb_packet list \<Rightarrow> error + event list" where
  "pyp_traceback self [] = Inr []"
| "pyp_traceback self (tb_packet # rest) =
     (case get_pyp_errorline self (Some (fst (snd tb_packet))) of
        Inl e \<Rightarrow> Inl e
      | Inr r \<Rightarrow>
          (case pyp_traceback self rest of
             Inl e \<Rightarrow> Inl e
           | Inr evs \<Rightarrow>
               Inr ((case r of
                       Some (source_linenum, line_text) \<Rightarrow>
                         [print (''  '' @ source_location (input_filename self) source_linenum),
                          print (''    '' @ line_text)]
                     | None \<Rightarrow> [print ''(Unknown pyp line)''])
                    @ evs)))"

text \<open>
  The handler of the bare \<^verbatim>\<open>except\<close>. The line it looks up is the line number of
  \<^verbatim>\<open>tb_packets[-1]\<close>, the last entry of the traceback.
\<close>

definition report_exception ::
  "PYPParser \<Rightarrow> string \<Rightarrow> string \<Rightarrow> tb_packet list \<Rightarrow> error + event list" where
  "report_exception self exc_name exc_value tb_packets =
     (case py_index tb_packets (- 1) of
        Inl e \<Rightarrow> Inl e
      | Inr last_packet \<Rightarrow>
          (case get_pyp_errorline self (Some (fst (snd last_packet))) of
             Inl e \<Rightarrow> Inl e
           | Inr r \<Rightarrow>
               (case (if debug self then pyp_traceback self (drop 3 tb_packets) else Inr []) of
                  Inl e \<Rightarrow> Inl e
                | Inr pyp_tb \<Rightarrow>
                    Inr ([print [], print ''======= ERROR INFO ================'']
                         @ (case r of
                              Some (source_linenum, line_text) \<Rightarrow>
                                [print (source_location (input_filename self) source_linenum),
                                 print (''  '' @ line_text)]
                            | None \<Rightarrow>
                                [print ''Sorry, could not find pyp source line'',
                                 print (concat (format_list [last_packet]))])
                         @ [print (exc_name @ '': '' @ exc_value)]
                         @ (if debug self
                            then [print [], print ''TRACEBACK:'',
                                  Stdout (concat (format_list (drop 3 tb_packets))),
                                  print [], print ''PYP TRACEBACK:''] @ pyp_tb
                            else [])
                         @ [print ''==================================='']))))"

text \<open>
  \<^verbatim>\<open>if filename:\<close> holds for a name that is neither \<^verbatim>\<open>None\<close> nor the empty string.
\<close>

definition given :: "string option \<Rightarrow> string option" where
  "given name = (case name of None \<Rightarrow> None | Some n \<Rightarrow> if n = [] then None else Some n)"

definition stdout_name :: string where
  "stdout_name = ''<stdout>''"

text \<open>
  \<^verbatim>\<open>write_and_execute_python_file\<close>. \<open>tmpname\<close> is the name \<^verbatim>\<open>tempfile.NamedTemporaryFile\<close>
  picks when no file name is given, \<open>run\<close> is what the module did. \<open>Inl\<close>: an exception
  has left the method.
\<close>

definition write_and_execute_python_file ::
  "PYPParser \<Rightarrow> string \<Rightarrow> program_run \<Rightarrow> string \<Rightarrow> string option \<Rightarrow> string option
   \<Rightarrow> error + event list" where
  "write_and_execute_python_file self script_text run tmpname filename output_filename =
     (let pyfile_name = (case given filename of None \<Rightarrow> tmpname | Some f \<Rightarrow> f);
          temp_outputname = map_option (\<lambda>d. d @ ''.tmp'') (given output_filename);
          start =
            [Open_w pyfile_name, Write pyfile_name script_text]
            @ (if debug self then [print (''Python executable: '' @ pyfile_name)] else [])
            @ (case temp_outputname of Some t \<Rightarrow> [Open_w t] | None \<Rightarrow> []);
          PRINT = (\<lambda>line. case temp_outputname of
                             Some t \<Rightarrow> Write t (line @ [nl])
                           | None \<Rightarrow> Stdout (line @ [nl]));
          success = (result run = Success);
          finish =
            (case given output_filename of
               Some d \<Rightarrow>
                 [Close (d @ ''.tmp''),
                  if success then Rename (d @ ''.tmp'') d else Remove (d @ ''.tmp'')]
             | None \<Rightarrow> [Close stdout_name])
      in case (case result run of
                 Success \<Rightarrow> Inr []
               | Syntax_error lineno exc_name exc_value exception_text \<Rightarrow>
                   report_syntax_error self lineno exc_name exc_value exception_text
               | Exception exc_name exc_value tb_packets \<Rightarrow>
                   report_exception self exc_name exc_value tb_packets) of
           Inl e \<Rightarrow> Inl e
         | Inr report \<Rightarrow> Inr (start @ map PRINT (printed run) @ report @ finish))"

text \<open>
  \<^verbatim>\<open>execute\<close>. \<open>run_module\<close> tells what running a module of a given text does. The method
  returns, leaves through \<^verbatim>\<open>sys.exit(1)\<close>, or is left by an exception nothing catches; the
  events are what it did before.
\<close>

datatype ending = Returned | Sys_exit nat | Uncaught error

definition report_parse_error :: "PYPParser \<Rightarrow> string \<Rightarrow> string \<Rightarrow> nat \<Rightarrow> event list" where
  "report_parse_error self text line linenum =
     [print [], print ''====== PARSE ERROR ========='',
      print (source_location (input_filename self) linenum),
      print (''  '' @ line),
      print (''ParseError: '' @ text),
      print ''============================'', print []]"

definition execute ::
  "PYPParser \<Rightarrow> (string \<Rightarrow> program_run) \<Rightarrow> string \<Rightarrow> string option \<Rightarrow> string option
   \<Rightarrow> event list \<times> ending" where
  "execute self run_module tmpname output_filename python_filename =
     (case parse_lines (new_PythonSequence 1) (textlines self) of
        Inl (ParseError text line linenum) \<Rightarrow>
          (report_parse_error self text line linenum, Sys_exit 1)
      | Inl IndexError \<Rightarrow> ([], Uncaught IndexError)
      | Inr (sequence, lines) \<Rightarrow>
          (let self1 = self\<lparr>parser_line_map := python_line_map sequence\<rparr>;
               python_text = get_python_text sequence;
               shown = (if debug self1
                        then [print ''PYTHON CODE:'', print python_text, print [],
                              print [], print ''EXECUTING PYTHON:'']
                        else [])
           in case write_and_execute_python_file self1 python_text (run_module python_text)
                     tmpname python_filename output_filename of
                Inl e \<Rightarrow> (shown, Uncaught e)
              | Inr evs \<Rightarrow> (shown @ evs, Returned)))"

text \<open>
  What the events do to the files: a map from paths to contents. Writing a file opened
  for writing appends to what was written since.
\<close>

fun apply_event :: "(string \<rightharpoonup> string) \<Rightarrow> event \<Rightarrow> (string \<rightharpoonup> string)" where
  "apply_event fs (Open_w p) = fs(p \<mapsto> [])"
| "apply_event fs (Write p s) = fs(p \<mapsto> (case fs p of None \<Rightarrow> s | Some old \<Rightarrow> old @ s))"
| "apply_event fs (Close p) = fs"
| "apply_event fs (Rename p q) = (if p = q then fs else (fs(q := fs p))(p := None))"
| "apply_event fs (Remove p) = fs(p := None)"
| "apply_event fs (Stdout s) = fs"

definition files_after :: "(string \<rightharpoonup> string) \<Rightarrow> event list \<Rightarrow> (string \<rightharpoonup> string)" where
  "files_after fs evs = foldl apply_event fs evs"

section \<open>A literal line, as its author writes it\<close>











section \<open>The loop heads of a parse\<close>

text \<open>
  \<open>visits self lines t m\<close>: the call \<^verbatim>\<open>self.parse_lines(lines)\<close>, or a call nested in it, comes
  to the head of its loop with the sequence \<open>t\<close> and the lines \<open>m\<close> left. When \<open>m\<close> is not
  empty its first line is the one popped next, and \<open>t\<close> is the sequence that is open there.
\<close>

inductive visits ::
  "PythonSequence \<Rightarrow> (string \<times> nat) list \<Rightarrow> PythonSequence \<Rightarrow> (string \<times> nat) list \<Rightarrow> bool" where
  here: "visits self lines self lines"
| continue: "parse_line self x lines = Continue self' lines' \<Longrightarrow> visits self' lines' t m
     \<Longrightarrow> visits self (x # lines) t m"
| inside: "parse_line self x lines = Nested self' new_block \<Longrightarrow> visits new_block lines t m
     \<Longrightarrow> visits self (x # lines) t m"
| after: "parse_line self x lines = Nested self' new_block
     \<Longrightarrow> parse_lines new_block lines = Inr (block, lines')
     \<Longrightarrow> visits (close_block self' block) lines' t m
     \<Longrightarrow> visits self (x # lines) t m"


section \<open>Inputs that open blocks and close none\<close>



section \<open>Literal lines\<close>

text \<open>
  A line that no pattern of the parser matches: it is handed to the literal-line
  transformer.
\<close>

definition literal_line :: "string \<Rightarrow> bool" where
  "literal_line l =
     (\<not> PYTHON_BLOCK_START_match l \<and> CONTROL_START_match l = None
      \<and> CONTROL_MIDDLE_match l = None \<and> CONTROL_END_match l = None
      \<and> NORMAL_PYTHON_LINE_match l = None)"


section \<open>The line map of a parser that has parsed\<close>

text \<open>
  Every value of the line map is the number of a line of \<^verbatim>\<open>textlines\<close>; then the look-up
  \<^verbatim>\<open>self.textlines[source_linenum-1]\<close> of \<^verbatim>\<open>_get_pyp_errorline\<close> is in range.
\<close>

definition map_in_range :: "PYPParser \<Rightarrow> bool" where
  "map_in_range self =
     (\<forall>g s. parser_line_map self g = Some s \<longrightarrow> 1 \<le> s \<and> s \<le> length (textlines self))"


section \<open>Runs and files\<close>

text \<open>
  An exception that the handler catches has a traceback of at least one frame, the frame
  of the \<^verbatim>\<open>try\<close>. An event touches a path when it opens, writes, renames or removes it; the
  reports of the handlers are events of the standard output.
\<close>

definition run_ok :: "program_run \<Rightarrow> bool" where
  "run_ok run = (case result run of Exception exc_name exc_value tb_packets \<Rightarrow> tb_packets \<noteq> [] | _ \<Rightarrow> True)"

fun touches :: "string \<Rightarrow> event \<Rightarrow> bool" where
  "touches d (Open_w p) = (p = d)"
| "touches d (Write p s) = (p = d)"
| "touches d (Close p) = False"
| "touches d (Rename p q) = (p = d \<or> q = d)"
| "touches d (Remove p) = (p = d)"
| "touches d (Stdout s) = False"

fun is_stdout :: "event \<Rightarrow> bool" where
  "is_stdout (Stdout s) = True"
| "is_stdout ev = False"


section \<open>The preprocessor keeps the line count\<close>

lemma length_py_split: "length (py_split d s) = Suc (length (filter (\<lambda>c. c = d) s))"
proof (induction d s rule: py_split.induct)
  case (1 d s)
  let ?P = "\<lambda>c. c \<noteq> d"
  have s: "s = takeWhile ?P s @ dropWhile ?P s" by simp
  have t: "filter (\<lambda>c. c = d) (takeWhile ?P s) = []"
    by (auto simp: filter_empty_conv dest: set_takeWhileD)
  show ?case
  proof (cases "dropWhile ?P s")
    case Nil
    then have "filter (\<lambda>c. c = d) s = []"
      using s t by (metis append_Nil2)
    moreover have "py_split d s = [takeWhile ?P s]"
      by (subst py_split.simps) (simp only: Nil list.case)
    ultimately show ?thesis by simp
  next
    case (Cons c rest)
    then have "c = d"
      using hd_dropWhile [of ?P s] by auto
    with Cons have "filter (\<lambda>c. c = d) s = d # filter (\<lambda>c. c = d) rest"
      using t by (subst s) (simp del: takeWhile_dropWhile_id)
    moreover have "py_split d s = takeWhile ?P s # py_split d rest"
      by (subst py_split.simps) (simp only: Cons list.case)
    moreover have "length (py_split d rest) = Suc (length (filter (\<lambda>c. c = d) rest))"
      using 1 Cons by simp
    ultimately show ?thesis by simp
  qed
qed

lemma py_count_char: "py_count [d] s = length (filter (\<lambda>c. c = d) s)"
  by (induction s) auto

lemma py_replace_char_free:
  "d \<noteq> e \<Longrightarrow> filter (\<lambda>c. c = d) (py_replace [d] [e] s) = []"
  by (induction s) auto

lemma filter_concat_replicate:
  "filter P (concat (replicate n xs)) = concat (replicate n (filter P xs))"
  by (induction n) auto

lemma length_concat_replicate: "length (concat (replicate n xs)) = n * length xs"
  by (induction n) auto

lemma newlines_replace_func:
  "length (filter (\<lambda>c. c = nl) (replace_func inner)) = length (filter (\<lambda>c. c = nl) inner)"
proof -
  have "filter (\<lambda>c. c = nl) (py_replace [nl] '' '' inner) = []"
    by (rule py_replace_char_free) (simp add: nl_def)
  moreover have "filter (\<lambda>c. c = nl) dummyline = [nl]"
    by (simp add: dummyline_def DUMMYTEXT_def nl_def)
  ultimately show ?thesis
    by (simp add: replace_func_def py_count_char filter_concat_replicate
        length_concat_replicate nl_def)
qed

lemma expr_match_split:
  assumes "expr_match s = Some (inner, rest)"
  shows "s = ''${'' @ inner @ ''}'' @ rest"
proof -
  let ?t = "drop 2 s"
  let ?P = "\<lambda>c. c \<noteq> CHR ''}''"
  from assms have p: "prefix ''${'' s" and m: "CHR ''}'' \<in> set ?t"
    and i: "inner = takeWhile ?P ?t" and r: "rest = tl (dropWhile ?P ?t)"
    by (auto simp: expr_match_def split: if_splits)
  from m have ne: "dropWhile ?P ?t \<noteq> []"
    by (auto simp: dropWhile_eq_Nil_conv)
  then have "hd (dropWhile ?P ?t) = CHR ''}''"
    using hd_dropWhile [of ?P ?t] by simp
  with ne have "dropWhile ?P ?t = CHR ''}'' # rest"
    using r by (cases "dropWhile ?P ?t") auto
  then have "?t = inner @ ''}'' @ rest"
    using i takeWhile_dropWhile_id [of ?P ?t] by simp
  moreover from p have "s = ''${'' @ ?t"
    by (auto simp: prefix_def)
  ultimately show ?thesis by simp
qed

lemma newlines_expr_sub:
  "length (filter (\<lambda>c. c = nl) (expr_sub replace_func s)) = length (filter (\<lambda>c. c = nl) s)"
proof (induction replace_func s rule: expr_sub.induct)
  case 1
  show ?case by simp
next
  case (2 c cs)
  show ?case
  proof (cases "expr_match (c # cs)")
    case None
    with 2 show ?thesis by simp
  next
    case (Some a)
    obtain inner rest where a: "a = (inner, rest)" by (cases a)
    with Some have m: "expr_match (c # cs) = Some (inner, rest)" by simp
    have "c # cs = ''${'' @ inner @ ''}'' @ rest"
      using expr_match_split [OF m] .
    then have "length (filter (\<lambda>c. c = nl) (c # cs))
        = length (filter (\<lambda>c. c = nl) inner) + length (filter (\<lambda>c. c = nl) rest)"
      by (simp add: nl_def)
    moreover have "length (filter (\<lambda>c. c = nl) (expr_sub replace_func rest))
        = length (filter (\<lambda>c. c = nl) rest)"
      using 2(2) [OF m refl] .
    ultimately show ?thesis
      using m by (simp add: newlines_replace_func del: filter.simps)
  qed
qed

text \<open>
  C6. For every input text the preprocessed text has as many physical lines as the
  original, and the stream of (text, line number) pairs built from it carries the line
  numbers 1, 2, ..., N of the original, each exactly once and in order.
\<close>

theorem preprocess_keeps_line_count:
  "length (py_split nl (preprocess_text text)) = length (py_split nl text)
   \<and> length (textlines_of text) = length (py_split nl text)
   \<and> map snd (textlines_of text) = [1..<Suc (length (py_split nl text))]"
proof -
  have n: "length (py_split nl (preprocess_text text)) = length (py_split nl text)"
    by (simp add: length_py_split preprocess_text_def newlines_expr_sub)
  have "map (\<lambda>x. 1 + x) [0..<k] = [1..<Suc k]" for k :: nat
    using map_Suc_upt [of 0 k] by (simp del: upt_Suc)
  with n show ?thesis
    by (simp add: textlines_of_def Let_def del: upt_Suc)
qed

section \<open>The literal-line transformer\<close>













lemma set_py_replace_delete: "new = [] \<Longrightarrow> set (py_replace old new s) \<subseteq> set s"
proof (induction old new s rule: py_replace.induct)
  case (1 new s)
  then show ?case by (induction s) auto
next
  case (2 p ps new)
  show ?case by simp
next
  case (3 p ps new c cs)
  then show ?case
    by (auto dest: in_set_dropD)
qed

lemma py_replace_absent: "p \<notin> set s \<Longrightarrow> py_replace (p # ps) new s = s"
  by (induction s) auto

lemma exprs_cleaned:
  assumes "CHR ''}'' \<notin> set e"
  shows "py_replace ''}'' [] (py_replace ''${'' [] e) = py_replace ''${'' [] e"
proof -
  have "CHR ''}'' \<notin> set (py_replace ''${'' [] e)"
    using assms set_py_replace_delete [of "[]" "''${''" e] by auto
  then show ?thesis by (rule py_replace_absent)
qed






section \<open>Verbatim blocks: the prefix is looked for anywhere in the line\<close>

text \<open>
  C7. In a verbatim block whose first code line is indented by four blanks, the line
  \<^verbatim>\<open>b = 'x    y'\<close> is not in no-strip mode and has no leading blank. The claim has it emitted
  unmodified; the pattern \<^verbatim>\<open>\s{4}\<close> is not anchored, so the code deletes the four blanks
  inside the string literal.
\<close>

theorem verbatim_block_interior_run:
  "process_python_block
     [(''    a = 1'', 2), (''b = '' @ [sq] @ ''x    y'' @ [sq], 3), (''%>'', 4)]
   = Inr ([(PythonLine ''a = 1'' False 0, 2),
           (PythonLine (''b = '' @ [sq] @ ''xy'' @ [sq]) False 0, 3)], [])"
  by code_simp

section \<open>Runtime failures: the frame that is looked up\<close>

text \<open>
  C8. The template \<^verbatim>\<open>%import lib\<close>, \<^verbatim>\<open>${lib.f()}\<close> generates a module of two lines, mapped to
  the source lines 1 and 2. The call in generated line 2 fails inside \<^verbatim>\<open>lib.py\<close>, line 1.
  The innermost frame inside the generated unit is at generated line 2, so the claim has
  source line 2 reported; the code takes the last frame of the traceback, reads its
  line number 1 as a generated line and reports source line 1.
\<close>

theorem last_frame_outside_generated_unit:
  "execute (new_PYPParser (''%import lib'' @ [nl] @ ''${lib.f()}'') False ''t.pyp'')
         (\<lambda>script. \<lparr>printed = [], result = Exception ''ValueError'' ''1''
            [(''pyp.py'', 499, ''write_and_execute_python_file'',
              Some ''runpy.run_module(modname, init_globals={''),
             (''runpy.py'', 180, ''run_module'', Some ''fname, loader, pkg_name)''),
             (''runpy.py'', 72, ''_run_code'', Some ''exec code in run_globals''),
             (''/tmp/gen.py'', 2, ''<module>'',
              Some (''_PRINT('' @ [sq] @ ''%s'' @ [sq] @ '' % ((lib.f()),))'')),
             (''lib.py'', 1, ''f'', Some ''raise ValueError(1)'')]\<rparr>)
         ''/tmp/gen.py'' None None
   = ([Open_w ''/tmp/gen.py'',
       Write ''/tmp/gen.py''
         (''import lib'' @ [nl] @ ''_PRINT('' @ [sq] @ ''%s'' @ [sq] @ '' % ((lib.f()),))''),
       print [],
       print ''======= ERROR INFO ================'',
       print (''File '' @ [dq] @ ''t.pyp'' @ [dq] @ '', line 1''),
       print ''  %import lib'',
       print ''ValueError: 1'',
       print ''==================================='',
       Close ''<stdout>''], Returned)"
  by code_simp

section \<open>Keyword lines that do not match the open block\<close>







section \<open>A block that is never closed\<close>








section \<open>The reserved word of the preprocessor\<close>

lemma dummytext_not_straddling:
  assumes "\<not> sublist DUMMYTEXT a" and "a \<noteq> []"
  shows "\<not> prefix DUMMYTEXT (a @ DUMMYTEXT @ b)"
proof
  assume "prefix DUMMYTEXT (a @ DUMMYTEXT @ b)"
  then consider "prefix DUMMYTEXT a"
    | us where "DUMMYTEXT = a @ us" "prefix us (DUMMYTEXT @ b)"
    by (auto simp: prefix_append)
  then show False
  proof cases
    case 1
    then have "sublist DUMMYTEXT a" by (rule prefix_imp_sublist)
    with assms(1) show False by simp
  next
    case 2
    show False
    proof (cases us)
      case Nil
      with 2(1) have "sublist DUMMYTEXT a" by simp
      with assms(1) show False by simp
    next
      case (Cons u us')
      with 2(2) have "u = CHR ''D''"
        by (simp add: DUMMYTEXT_def)
      moreover obtain c a' where "a = c # a'"
        using assms(2) by (cases a) auto
      with 2(1) Cons have "u \<in> set (tl DUMMYTEXT)"
        by (metis append_Cons in_set_conv_decomp list.sel(3) list.set_intros(1) set_append UnI2)
      ultimately show False by (simp add: DUMMYTEXT_def)
    qed
  qed
qed

lemma py_replace_at_occurrence:
  "old \<noteq> [] \<Longrightarrow> py_replace old new (old @ s) = new @ py_replace old new s"
  by (cases old) auto

lemma py_replace_no_occurrence:
  "old \<noteq> [] \<Longrightarrow> \<not> prefix old (c # cs)
   \<Longrightarrow> py_replace old new (c # cs) = c # py_replace old new cs"
  by (cases old) auto

lemma dummytext_deleted:
  "\<not> sublist DUMMYTEXT a
   \<Longrightarrow> py_replace DUMMYTEXT [] (a @ DUMMYTEXT @ b) = a @ py_replace DUMMYTEXT [] b"
proof (induction a)
  case Nil
  have "DUMMYTEXT \<noteq> []" by (simp add: DUMMYTEXT_def)
  then show ?case
    using py_replace_at_occurrence [of DUMMYTEXT "[]" b] by simp
next
  case (Cons c a)
  then have ih: "py_replace DUMMYTEXT [] (a @ DUMMYTEXT @ b) = a @ py_replace DUMMYTEXT [] b"
    by (simp add: sublist_Cons_right)
  have ne: "DUMMYTEXT \<noteq> []" by (simp add: DUMMYTEXT_def)
  have "\<not> prefix DUMMYTEXT ((c # a) @ DUMMYTEXT @ b)"
    using Cons.prems by (rule dummytext_not_straddling) simp
  then have "\<not> prefix DUMMYTEXT (c # (a @ DUMMYTEXT @ b))" by simp
  then have "py_replace DUMMYTEXT [] (c # (a @ DUMMYTEXT @ b))
      = c # py_replace DUMMYTEXT [] (a @ DUMMYTEXT @ b)"
    by (rule py_replace_no_occurrence [OF ne])
  with ih show ?case by simp
qed

text \<open>
  C10 (amended). For every line the loop of \<^verbatim>\<open>parse_lines\<close> pops (a line of a verbatim
  block is popped elsewhere): a line that is \<^verbatim>\<open>DUMMYTEXT\<close> followed by blanks only leaves
  the sequence as it was, with no node and no map entry; any other line that is not a
  comment is classified and emitted as the line with \<^verbatim>\<open>DUMMYTEXT\<close> deleted, so a literal
  line is emitted with that text removed; and the deletion removes an occurrence that
  follows text without one and goes on behind it.
\<close>

theorem dummytext_in_main_loop:
  "(DUMMYTEXT_match line \<longrightarrow> parse_line self (line, linenum) lines = Continue self lines)
   \<and> (\<not> PYP_COMMENT_match line \<and> \<not> DUMMYTEXT_match line
      \<longrightarrow> parse_line self (line, linenum) lines
          = dispatch_line self (py_replace DUMMYTEXT [] line) linenum lines)
   \<and> (\<not> PYP_COMMENT_match line \<and> \<not> DUMMYTEXT_match line
        \<and> literal_line (py_replace DUMMYTEXT [] line)
      \<longrightarrow> parse_line self (line, linenum) lines
          = Continue
              (add_node self
                 (Line (new_PythonLine
                    (line_to_pythonstatement (pypdef self) (py_replace DUMMYTEXT [] line))))
                 (Some linenum) True)
              lines)
   \<and> (\<not> sublist DUMMYTEXT a
      \<longrightarrow> py_replace DUMMYTEXT [] (a @ DUMMYTEXT @ b) = a @ py_replace DUMMYTEXT [] b)"
  by (simp add: parse_line_def dispatch_line_def literal_line_def dummytext_deleted)

text \<open>A dummy line, and the literal line \<^verbatim>\<open>a DUMMYTEXT b\<close>.\<close>

theorem dummytext_in_main_loop_witness:
  "parse_line (new_PythonSequence 1) (''DUMMYTEXT  '', 3) [] = Continue (new_PythonSequence 1) []
   \<and> parse_line (new_PythonSequence 1) (''a DUMMYTEXT b'', 1) []
     = Continue
         (add_node (new_PythonSequence 1)
            (Line (new_PythonLine (''_PRINT(('' @ [sq] @ ''a  b'' @ [sq] @ ''))'')))
            (Some 1) True)
         []
   \<and> py_replace DUMMYTEXT [] (''a '' @ DUMMYTEXT @ '' b'') = ''a  b''"
proof -
  have h: "DUMMYTEXT_match ''DUMMYTEXT  ''" "\<not> PYP_COMMENT_match ''a DUMMYTEXT b''"
    "\<not> DUMMYTEXT_match ''a DUMMYTEXT b''"
    "literal_line (py_replace DUMMYTEXT [] ''a DUMMYTEXT b'')"
    by code_simp+
  have s: "\<not> sublist DUMMYTEXT ''a ''"
    by (simp add: DUMMYTEXT_def sublist_Cons_right)
  have e: "py_replace DUMMYTEXT [] ''a DUMMYTEXT b'' = ''a  b''"
    "py_replace DUMMYTEXT [] '' b'' = '' b''"
    "line_to_pythonstatement False ''a  b'' = ''_PRINT(('' @ [sq] @ ''a  b'' @ [sq] @ ''))''"
    by code_simp+
  have p: "pypdef (new_PythonSequence 1) = False"
    by (simp add: new_PythonSequence_def)
  have "parse_line (new_PythonSequence 1) (''DUMMYTEXT  '', 3) [] = Continue (new_PythonSequence 1) []"
    using dummytext_in_main_loop [of "''DUMMYTEXT  ''" "new_PythonSequence 1" 3 "[]"] h(1)
    by blast
  moreover have "parse_line (new_PythonSequence 1) (''a DUMMYTEXT b'', 1) []
     = Continue
         (add_node (new_PythonSequence 1)
            (Line (new_PythonLine
               (line_to_pythonstatement (pypdef (new_PythonSequence 1))
                  (py_replace DUMMYTEXT [] ''a DUMMYTEXT b''))))
            (Some 1) True)
         []"
    using dummytext_in_main_loop [of "''a DUMMYTEXT b''" "new_PythonSequence 1" 1 "[]"] h(2,3,4)
    by blast
  moreover have "py_replace DUMMYTEXT [] (''a '' @ DUMMYTEXT @ '' b'')
      = ''a '' @ py_replace DUMMYTEXT [] '' b''"
    using dummytext_in_main_loop [of _ _ _ _ "''a ''" "'' b''"] s by blast
  ultimately show ?thesis
    by (simp only: e p) simp
qed

text \<open>
  The claim as it was stated fails inside a verbatim block: the line \<^verbatim>\<open>DUMMYTEXT\<close> of the
  template \<^verbatim>\<open><%\<close>, \<^verbatim>\<open>DUMMYTEXT\<close>, \<^verbatim>\<open>%>\<close> becomes line 1 of the module, and a failure there is
  reported at source line 2 through its map entry.
\<close>

theorem dummytext_in_main_loop_counterexample:
  "execute (new_PYPParser (''<%'' @ [nl] @ ''DUMMYTEXT'' @ [nl] @ ''%>'') False ''t.pyp'')
     (\<lambda>script. \<lparr>printed = [],
        result = Exception ''NameError'' ''name DUMMYTEXT is not defined''
                   [(''/tmp/gen.py'', 1, ''<module>'', Some ''DUMMYTEXT'')]\<rparr>)
     ''/tmp/gen.py'' None None
   = ([Open_w ''/tmp/gen.py'',
       Write ''/tmp/gen.py'' ''DUMMYTEXT'',
       print [],
       print ''======= ERROR INFO ================'',
       print (''File '' @ [dq] @ ''t.pyp'' @ [dq] @ '', line 2''),
       print ''  DUMMYTEXT'',
       print ''NameError: name DUMMYTEXT is not defined'',
       print ''==================================='',
       Close ''<stdout>''], Returned)"
  by code_simp


section \<open>Named template functions\<close>

lemma add_node_flags:
  "indented (add_node s n k b) = indented s" "pypdef (add_node s n k b) = pypdef s"
  "control_word (add_node s n k b) = control_word s"
  by (simp_all add: add_node_def append_node_def Let_def split: option.splits)

lemma fold_add_node_indented:
  "indented (fold (\<lambda>(pythonline, k) s. add_node s (Line pythonline) (Some k) True) block s)
     = indented s"
proof (induction block arbitrary: s)
  case Nil
  show ?case by simp
next
  case (Cons x block)
  obtain pythonline k where "x = (pythonline, k)" by (cases x)
  then show ?case
    by (simp add: Cons.IH add_node_flags)
qed

lemma fold_add_node_pypdef:
  "pypdef (fold (\<lambda>(pythonline, k) s. add_node s (Line pythonline) (Some k) True) block s)
     = pypdef s"
proof (induction block arbitrary: s)
  case Nil
  show ?case by simp
next
  case (Cons x block)
  obtain pythonline k where "x = (pythonline, k)" by (cases x)
  then show ?case
    by (simp add: Cons.IH add_node_flags)
qed

lemma dispatch_line_Continue_flags:
  assumes "dispatch_line self l linenum lines = Continue s lines'"
  shows "indented s = indented self \<and> pypdef s = pypdef self"
proof (cases "PYTHON_BLOCK_START_match l")
  case True
  with assms show ?thesis
    by (auto simp: dispatch_line_def fold_add_node_indented fold_add_node_pypdef split: sum.splits)
next
  case False
  note b = this
  show ?thesis
  proof (cases "CONTROL_START_match l")
    case (Some a)
    with assms b show ?thesis
      by (cases a) (simp add: dispatch_line_def Let_def)
  next
    case None
    note st = this
    show ?thesis
    proof (cases "CONTROL_MIDDLE_match l")
      case (Some a)
      obtain statement w where "a = (statement, w)" by (cases a)
      with assms b st Some show ?thesis
        by (auto simp: dispatch_line_def Let_def map_increment_linenum_def split: if_splits)
    next
      case None
      note mi = this
      show ?thesis
      proof (cases "CONTROL_END_match l")
        case (Some w)
        with assms b st mi show ?thesis
          by (simp add: dispatch_line_def Let_def split: if_splits)
      next
        case None
        with assms b st mi show ?thesis
          by (cases "NORMAL_PYTHON_LINE_match l")
             (auto simp: dispatch_line_def add_node_flags)
      qed
    qed
  qed
qed

lemma parse_line_Continue_flags:
  assumes "parse_line self x lines = Continue s lines'"
  shows "indented s = indented self \<and> pypdef s = pypdef self"
  using assms
  by (cases x) (auto simp: parse_line_def split: if_splits dest: dispatch_line_Continue_flags)

lemma dispatch_line_Nested_flags:
  assumes "dispatch_line self l linenum lines = Nested s new_block"
  shows "indented s = indented self \<and> pypdef s = pypdef self \<and> indented new_block
         \<and> (indented self \<and> pypdef self \<longrightarrow> pypdef new_block)"
proof (cases "PYTHON_BLOCK_START_match l")
  case True
  with assms show ?thesis
    by (auto simp: dispatch_line_def split: sum.splits)
next
  case False
  note b = this
  show ?thesis
  proof (cases "CONTROL_START_match l")
    case (Some a)
    obtain statement w where "a = (statement, w)" by (cases a)
    with assms b Some show ?thesis
      by (auto simp: dispatch_line_def Let_def add_node_flags update_python_linemap_def
          new_PythonIndentedSequence_def)
  next
    case None
    note st = this
    show ?thesis
    proof (cases "CONTROL_MIDDLE_match l")
      case (Some a)
      obtain statement w where "a = (statement, w)" by (cases a)
      with assms b st Some show ?thesis
        by (simp add: dispatch_line_def Let_def split: if_splits)
    next
      case None
      note mi = this
      show ?thesis
      proof (cases "CONTROL_END_match l")
        case (Some w)
        with assms b st mi show ?thesis
          by (simp add: dispatch_line_def Let_def split: if_splits)
      next
        case None
        with assms b st mi show ?thesis
          by (cases "NORMAL_PYTHON_LINE_match l") (simp_all add: dispatch_line_def)
      qed
    qed
  qed
qed

lemma parse_line_Nested_flags:
  assumes "parse_line self x lines = Nested s new_block"
  shows "indented s = indented self \<and> pypdef s = pypdef self \<and> indented new_block
         \<and> (indented self \<and> pypdef self \<longrightarrow> pypdef new_block)"
  using assms
  by (cases x) (auto simp: parse_line_def split: if_splits dest: dispatch_line_Nested_flags)

lemma close_block_flags:
  "indented (close_block s b) = indented s" "pypdef (close_block s b) = pypdef s"
  by (simp_all add: close_block_def Let_def add_node_flags)

lemma visits_pypdef:
  "visits self lines t m \<Longrightarrow> indented self \<and> pypdef self \<Longrightarrow> indented t \<and> pypdef t"
proof (induction rule: visits.induct)
  case (here self lines)
  then show ?case .
next
  case (continue self x lines self' lines' t m)
  then show ?case by (auto dest: parse_line_Continue_flags)
next
  case (inside self x lines self' new_block t m)
  then show ?case by (auto dest: parse_line_Nested_flags)
next
  case (after self x lines self' new_block block lines' t m)
  then show ?case by (auto simp: close_block_flags dest: parse_line_Nested_flags)
qed

lemma append_in_pypdef:
  "line_to_pythonstatement True l
     = ''_OUTPUT.append'' @ drop (length ''_PRINT'') (line_to_pythonstatement False l)"
  by (simp add: line_to_pythonstatement_def Let_def)

text \<open>
  C4. A control-start line with the keyword \<^verbatim>\<open>pypdef\<close> opens a block whose header is the
  statement with \<^verbatim>\<open>def\<close> for \<^verbatim>\<open>pypdef\<close> and whose first node, right after the header, is the
  statement \<^verbatim>\<open>_OUTPUT=[]\<close>. At every loop head of the parse of its body, nested blocks
  included, the sequence is in \<^verbatim>\<open>pypdef\<close> mode, and a literal line there is emitted as a call
  of \<^verbatim>\<open>_OUTPUT.append\<close> in place of \<^verbatim>\<open>_PRINT\<close>. The line \<^verbatim>\<open>endpypdef\<close> that closes a block of
  the keyword \<^verbatim>\<open>pypdef\<close> appends the statement \<^verbatim>\<open>return '\n'.join(_OUTPUT)\<close> and then returns
  to the parent with the lines that are left.
\<close>

theorem pypdef_block:
  assumes "\<not> PYTHON_BLOCK_START_match l"
    and "CONTROL_START_match l = Some (statement, ''pypdef'')"
  shows "\<exists>s b. dispatch_line self l linenum lines = Nested s b
      \<and> control_blocks b
          = [PythonControlBlock (new_PythonLine (py_replace1 ''pypdef'' ''def'' statement))
               ''pypdef'' [Line (new_PythonLine ''_OUTPUT=[]'')]]
      \<and> control_word b = Some ''pypdef''
      \<and> (\<forall>t m. visits b lines t m \<longrightarrow> pypdef t)
      \<and> (\<forall>t m line k. visits b lines t ((line, k) # m)
            \<and> \<not> PYP_COMMENT_match line \<and> \<not> DUMMYTEXT_match line
            \<and> literal_line (py_replace DUMMYTEXT [] line)
          \<longrightarrow> parse_line t (line, k) m
              = Continue
                  (add_node t
                     (Line (new_PythonLine
                        (''_OUTPUT.append''
                         @ drop (length ''_PRINT'')
                             (line_to_pythonstatement False (py_replace DUMMYTEXT [] line)))))
                     (Some k) True)
                  m)
      \<and> (\<forall>t m line k. control_word t = Some ''pypdef''
            \<and> \<not> PYP_COMMENT_match line \<and> \<not> DUMMYTEXT_match line
            \<and> \<not> PYTHON_BLOCK_START_match (py_replace DUMMYTEXT [] line)
            \<and> CONTROL_START_match (py_replace DUMMYTEXT [] line) = None
            \<and> CONTROL_MIDDLE_match (py_replace DUMMYTEXT [] line) = None
            \<and> CONTROL_END_match (py_replace DUMMYTEXT [] line) = Some ''pypdef''
          \<longrightarrow> parse_lines t ((line, k) # m)
              = Inr (add_node t (Line (new_PythonLine return_OUTPUT)) None True, m))"
proof -
  let ?s = "update_python_linemap self linenum"
  let ?b = "add_node
              (new_PythonIndentedSequence
                 (new_PythonLine (py_replace1 ''pypdef'' ''def'' statement)) ''pypdef''
                 (python_linenum ?s + 1) True linenum)
              (Line (new_PythonLine ''_OUTPUT=[]'')) None True"
  have d: "dispatch_line self l linenum lines = Nested ?s ?b"
    using assms by (simp add: dispatch_line_def Let_def)
  have cb: "control_blocks ?b
      = [PythonControlBlock (new_PythonLine (py_replace1 ''pypdef'' ''def'' statement))
           ''pypdef'' [Line (new_PythonLine ''_OUTPUT=[]'')]]"
    by (simp add: add_node_def append_node_def new_PythonIndentedSequence_def)
  have cw: "control_word ?b = Some ''pypdef''"
    by (simp add: add_node_flags new_PythonIndentedSequence_def)
  have fl: "indented ?b \<and> pypdef ?b"
    by (simp add: add_node_flags new_PythonIndentedSequence_def)
  have inside: "pypdef t" if "visits ?b lines t m" for t m
    using visits_pypdef [OF that fl] by simp
  have lit: "parse_line t (line, k) m
      = Continue
          (add_node t
             (Line (new_PythonLine
                (''_OUTPUT.append''
                 @ drop (length ''_PRINT'')
                     (line_to_pythonstatement False (py_replace DUMMYTEXT [] line)))))
             (Some k) True)
          m"
    if "visits ?b lines t ((line, k) # m)" "\<not> PYP_COMMENT_match line" "\<not> DUMMYTEXT_match line"
      "literal_line (py_replace DUMMYTEXT [] line)" for t m line k
  proof -
    have "pypdef t" using that(1) by (rule inside)
    with that(2,3,4) show ?thesis
      by (simp add: parse_line_def dispatch_line_def literal_line_def append_in_pypdef
          del: append.simps)
  qed
  have fin: "parse_lines t ((line, k) # m)
      = Inr (add_node t (Line (new_PythonLine return_OUTPUT)) None True, m)"
    if "control_word t = Some ''pypdef''" "\<not> PYP_COMMENT_match line" "\<not> DUMMYTEXT_match line"
      "\<not> PYTHON_BLOCK_START_match (py_replace DUMMYTEXT [] line)"
      "CONTROL_START_match (py_replace DUMMYTEXT [] line) = None"
      "CONTROL_MIDDLE_match (py_replace DUMMYTEXT [] line) = None"
      "CONTROL_END_match (py_replace DUMMYTEXT [] line) = Some ''pypdef''" for t m line k
  proof -
    have "dispatch_line t (py_replace DUMMYTEXT [] line) k m
        = Break (add_node t (Line (new_PythonLine return_OUTPUT)) None True)"
      using that(1,4,5,6,7) by (simp add: dispatch_line_def Let_def add_node_flags)
    with that(2,3) have "parse_line t (line, k) m
        = Break (add_node t (Line (new_PythonLine return_OUTPUT)) None True)"
      by (simp add: parse_line_def)
    then show ?thesis
      by (simp add: parse_lines.simps)
  qed
  show ?thesis
  proof (intro exI conjI allI impI)
    show "dispatch_line self l linenum lines = Nested ?s ?b" by (rule d)
    show "control_blocks ?b
      = [PythonControlBlock (new_PythonLine (py_replace1 ''pypdef'' ''def'' statement))
           ''pypdef'' [Line (new_PythonLine ''_OUTPUT=[]'')]]" by (rule cb)
    show "control_word ?b = Some ''pypdef''" by (rule cw)
  next
    fix t m assume "visits ?b lines t m"
    then show "pypdef t" by (rule inside)
  next
    fix t m line k
    assume "visits ?b lines t ((line, k) # m)
            \<and> \<not> PYP_COMMENT_match line \<and> \<not> DUMMYTEXT_match line
            \<and> literal_line (py_replace DUMMYTEXT [] line)"
    then show "parse_line t (line, k) m
      = Continue
          (add_node t
             (Line (new_PythonLine
                (''_OUTPUT.append''
                 @ drop (length ''_PRINT'')
                     (line_to_pythonstatement False (py_replace DUMMYTEXT [] line)))))
             (Some k) True)
          m"
      using lit by blast
  next
    fix t :: PythonSequence and m line k
    assume "control_word t = Some ''pypdef''
            \<and> \<not> PYP_COMMENT_match line \<and> \<not> DUMMYTEXT_match line
            \<and> \<not> PYTHON_BLOCK_START_match (py_replace DUMMYTEXT [] line)
            \<and> CONTROL_START_match (py_replace DUMMYTEXT [] line) = None
            \<and> CONTROL_MIDDLE_match (py_replace DUMMYTEXT [] line) = None
            \<and> CONTROL_END_match (py_replace DUMMYTEXT [] line) = Some ''pypdef''"
    then show "parse_lines t ((line, k) # m)
      = Inr (add_node t (Line (new_PythonLine return_OUTPUT)) None True, m)"
      using fin by blast
  qed
qed

text \<open>The block \<^verbatim>\<open>%pypdef greet(n):\<close>, \<^verbatim>\<open>Hi ${n}\<close>, \<^verbatim>\<open>%endpypdef\<close>.\<close>

theorem pypdef_block_witness:
  "(\<exists>s b. dispatch_line (new_PythonSequence 1) ''%pypdef greet(n):'' 1
            [(''Hi ${n}'', 2), (''%endpypdef'', 3)] = Nested s b
      \<and> control_blocks b
          = [PythonControlBlock (new_PythonLine ''def greet(n):'') ''pypdef''
               [Line (new_PythonLine ''_OUTPUT=[]'')]]
      \<and> pypdef b
      \<and> parse_line b (''Hi ${n}'', 2) [(''%endpypdef'', 3)]
          = Continue
              (add_node b
                 (Line (new_PythonLine
                    (''_OUTPUT.append('' @ [sq] @ ''Hi %s'' @ [sq] @ '' % ((n),))'')))
                 (Some 2) True)
              [(''%endpypdef'', 3)]
      \<and> parse_lines b [(''%endpypdef'', 3)]
          = Inr (add_node b (Line (new_PythonLine return_OUTPUT)) None True, []))
   \<and> get_python_text
        (fst (projr (parse_lines (new_PythonSequence 1)
           [(''%pypdef greet(n):'', 1), (''Hi ${n}'', 2), (''%endpypdef'', 3)])))
      = ''def greet(n):'' @ [nl]
        @ ''    _OUTPUT=[]'' @ [nl]
        @ ''    _OUTPUT.append('' @ [sq] @ ''Hi %s'' @ [sq] @ '' % ((n),))'' @ [nl]
        @ ''    return '' @ [sq, bs] @ ''n'' @ [sq] @ ''.join(_OUTPUT)''"
proof -
  let ?L = "[(''Hi ${n}'', 2 :: nat), (''%endpypdef'', 3)]"
  have c: "\<not> PYTHON_BLOCK_START_match ''%pypdef greet(n):''"
    "CONTROL_START_match ''%pypdef greet(n):'' = Some (''pypdef greet(n):'', ''pypdef'')"
    by code_simp+
  have r: "py_replace1 ''pypdef'' ''def'' ''pypdef greet(n):'' = ''def greet(n):''"
    by code_simp
  have h: "\<not> PYP_COMMENT_match ''Hi ${n}''" "\<not> DUMMYTEXT_match ''Hi ${n}''"
    "literal_line (py_replace DUMMYTEXT [] ''Hi ${n}'')"
    by code_simp+
  have e: "''_OUTPUT.append''
      @ drop (length ''_PRINT'') (line_to_pythonstatement False (py_replace DUMMYTEXT [] ''Hi ${n}''))
      = ''_OUTPUT.append('' @ [sq] @ ''Hi %s'' @ [sq] @ '' % ((n),))''"
    by code_simp
  have f: "\<not> PYP_COMMENT_match ''%endpypdef''" "\<not> DUMMYTEXT_match ''%endpypdef''"
    "\<not> PYTHON_BLOCK_START_match (py_replace DUMMYTEXT [] ''%endpypdef'')"
    "CONTROL_START_match (py_replace DUMMYTEXT [] ''%endpypdef'') = None"
    "CONTROL_MIDDLE_match (py_replace DUMMYTEXT [] ''%endpypdef'') = None"
    "CONTROL_END_match (py_replace DUMMYTEXT [] ''%endpypdef'') = Some ''pypdef''"
    by code_simp+
  obtain s b where d: "dispatch_line (new_PythonSequence 1) ''%pypdef greet(n):'' 1 ?L = Nested s b"
    and cb: "control_blocks b
          = [PythonControlBlock
               (new_PythonLine (py_replace1 ''pypdef'' ''def'' ''pypdef greet(n):''))
               ''pypdef'' [Line (new_PythonLine ''_OUTPUT=[]'')]]"
    and cw: "control_word b = Some ''pypdef''"
    and v: "\<And>t m. visits b ?L t m \<Longrightarrow> pypdef t"
    and lit: "\<And>t m line k. visits b ?L t ((line, k) # m) \<Longrightarrow> \<not> PYP_COMMENT_match line
          \<Longrightarrow> \<not> DUMMYTEXT_match line \<Longrightarrow> literal_line (py_replace DUMMYTEXT [] line)
          \<Longrightarrow> parse_line t (line, k) m
              = Continue
                  (add_node t
                     (Line (new_PythonLine
                        (''_OUTPUT.append''
                         @ drop (length ''_PRINT'')
                             (line_to_pythonstatement False (py_replace DUMMYTEXT [] line)))))
                     (Some k) True)
                  m"
    and fin: "\<And>t m line k. control_word t = Some ''pypdef''
          \<Longrightarrow> \<not> PYP_COMMENT_match line \<Longrightarrow> \<not> DUMMYTEXT_match line
          \<Longrightarrow> \<not> PYTHON_BLOCK_START_match (py_replace DUMMYTEXT [] line)
          \<Longrightarrow> CONTROL_START_match (py_replace DUMMYTEXT [] line) = None
          \<Longrightarrow> CONTROL_MIDDLE_match (py_replace DUMMYTEXT [] line) = None
          \<Longrightarrow> CONTROL_END_match (py_replace DUMMYTEXT [] line) = Some ''pypdef''
          \<Longrightarrow> parse_lines t ((line, k) # m)
              = Inr (add_node t (Line (new_PythonLine return_OUTPUT)) None True, m)"
    using pypdef_block [OF c, of "new_PythonSequence 1" 1 ?L]
    by (elim exE conjE) blast
  have 1: "control_blocks b
          = [PythonControlBlock (new_PythonLine ''def greet(n):'') ''pypdef''
               [Line (new_PythonLine ''_OUTPUT=[]'')]]"
    using cb by (simp only: r)
  have 2: "pypdef b"
    by (rule v [OF visits.here])
  have 3: "parse_line b (''Hi ${n}'', 2) [(''%endpypdef'', 3)]
          = Continue
              (add_node b
                 (Line (new_PythonLine
                    (''_OUTPUT.append('' @ [sq] @ ''Hi %s'' @ [sq] @ '' % ((n),))'')))
                 (Some 2) True)
              [(''%endpypdef'', 3)]"
    using lit [OF visits.here h] by (simp only: e)
  have 4: "parse_lines b [(''%endpypdef'', 3)]
          = Inr (add_node b (Line (new_PythonLine return_OUTPUT)) None True, [])"
    by (rule fin [OF cw f])
  have 5: "get_python_text
        (fst (projr (parse_lines (new_PythonSequence 1)
           [(''%pypdef greet(n):'', 1), (''Hi ${n}'', 2), (''%endpypdef'', 3)])))
      = ''def greet(n):'' @ [nl]
        @ ''    _OUTPUT=[]'' @ [nl]
        @ ''    _OUTPUT.append('' @ [sq] @ ''Hi %s'' @ [sq] @ '' % ((n),))'' @ [nl]
        @ ''    return '' @ [sq, bs] @ ''n'' @ [sq] @ ''.join(_OUTPUT)''"
    by code_simp
  from d 1 2 3 4 5 show ?thesis by blast
qed


section \<open>The line map holds line numbers of the input\<close>












section \<open>Reporting a failure of the generated program\<close>



lemma py_index_in_range:
  "1 \<le> s \<Longrightarrow> s \<le> length xs \<Longrightarrow> py_index xs (int s - 1) = Inr (xs ! (s - 1))"
  by (auto simp: py_index_def nat_diff_distrib')

lemma get_pyp_errorline_mapped:
  assumes "map_in_range self" and "parser_line_map self g = Some s"
  shows "get_pyp_errorline self (Some g) = Inr (Some (s, fst (textlines self ! (s - 1))))"
proof -
  from assms have "1 \<le> s" "s \<le> length (textlines self)"
    by (auto simp: map_in_range_def)
  then have "py_index (textlines self) (int s - 1) = Inr (textlines self ! (s - 1))"
    by (rule py_index_in_range)
  with assms(2) show ?thesis
    by (simp add: get_pyp_errorline_def)
qed

lemma get_pyp_errorline_unmapped:
  "parser_line_map self g = None \<Longrightarrow> get_pyp_errorline self (Some g) = Inr None"
  by (simp add: get_pyp_errorline_def)

lemma py_index_last: "xs \<noteq> [] \<Longrightarrow> py_index xs (- 1) = Inr (last xs)"
proof -
  assume ne: "xs \<noteq> []"
  then obtain y ys where "xs = y # ys" by (cases xs) auto
  then have "nat (int (length xs) + - 1) = length xs - 1" "- int (length xs) \<le> - 1"
    by simp_all
  with ne show ?thesis
    by (simp add: py_index_def last_conv_nth)
qed





section \<open>The output file\<close>

lemma apply_event_untouched: "\<not> touches d ev \<Longrightarrow> apply_event fs ev d = fs d"
  by (cases ev) auto

lemma files_after_untouched:
  "list_all (\<lambda>ev. \<not> touches d ev) evs \<Longrightarrow> files_after fs evs d = fs d"
  unfolding files_after_def
  by (induction evs arbitrary: fs) (auto simp: apply_event_untouched)

lemma files_after_append: "files_after fs (xs @ ys) = files_after (files_after fs xs) ys"
  by (simp add: files_after_def)

lemma stdout_touches_nothing: "is_stdout ev \<Longrightarrow> \<not> touches d ev"
  by (cases ev) auto

lemma files_after_written:
  "fs t = Some c
   \<Longrightarrow> files_after fs (map (\<lambda>line. Write t (line @ [nl])) ps) t
       = Some (c @ concat (map (\<lambda>line. line @ [nl]) ps))"
  unfolding files_after_def
  by (induction ps arbitrary: fs c) auto

lemma get_pyp_errorline_total:
  assumes "map_in_range self"
  shows "\<exists>r. get_pyp_errorline self g = Inr r"
proof (cases g)
  case None
  then show ?thesis by (simp add: get_pyp_errorline_def)
next
  case (Some k)
  show ?thesis
  proof (cases "parser_line_map self k")
    case None
    with Some show ?thesis by (simp add: get_pyp_errorline_unmapped)
  next
    case (Some s)
    with \<open>g = Some k\<close> assms show ?thesis
      by (simp add: get_pyp_errorline_mapped)
  qed
qed

lemma report_syntax_error_prints:
  assumes "map_in_range self"
  shows "\<exists>r. report_syntax_error self g exc_name exc_value exception_text = Inr r
             \<and> list_all is_stdout r"
proof -
  obtain r where "get_pyp_errorline self g = Inr r"
    using get_pyp_errorline_total [OF assms] by blast
  then show ?thesis
    by (cases r) (auto simp: report_syntax_error_def print_def)
qed

lemma pyp_traceback_prints:
  assumes "map_in_range self"
  shows "\<exists>r. pyp_traceback self tb = Inr r \<and> list_all is_stdout r"
proof (induction tb)
  case Nil
  show ?case by simp
next
  case (Cons p tb)
  then obtain evs where t: "pyp_traceback self tb = Inr evs" and o: "list_all is_stdout evs"
    by blast
  obtain r where g: "get_pyp_errorline self (Some (fst (snd p))) = Inr r"
    using get_pyp_errorline_total [OF assms] by blast
  show ?case
    using t o g by (cases r) (auto simp: print_def)
qed

lemma report_exception_prints:
  assumes "map_in_range self" and "tb \<noteq> []"
  shows "\<exists>r. report_exception self exc_name exc_value tb = Inr r \<and> list_all is_stdout r"
proof -
  have l: "py_index tb (- 1) = Inr (last tb)"
    using assms(2) by (rule py_index_last)
  obtain r where g: "get_pyp_errorline self (Some (fst (snd (last tb)))) = Inr r"
    using get_pyp_errorline_total [OF assms(1)] by blast
  obtain evs where t: "pyp_traceback self (drop 3 tb) = Inr evs" and o: "list_all is_stdout evs"
    using pyp_traceback_prints [OF assms(1)] by blast
  show ?thesis
    using l g t o by (cases r) (auto simp: report_exception_def print_def)
qed

lemma report_prints:
  assumes "map_in_range self" and "run_ok run"
  shows "\<exists>r. (case result run of
                 Success \<Rightarrow> Inr []
               | Syntax_error lineno exc_name exc_value exception_text \<Rightarrow>
                   report_syntax_error self lineno exc_name exc_value exception_text
               | Exception exc_name exc_value tb_packets \<Rightarrow>
                   report_exception self exc_name exc_value tb_packets) = Inr r
             \<and> list_all is_stdout r"
proof (cases "result run")
  case Success
  then show ?thesis by simp
next
  case (Syntax_error lineno exc_name exc_value exception_text)
  then show ?thesis
    using report_syntax_error_prints [OF assms(1)] by simp
next
  case (Exception exc_name exc_value tb_packets)
  with assms(2) have "tb_packets \<noteq> []" by (simp add: run_ok_def)
  with Exception show ?thesis
    using report_exception_prints [OF assms(1)] by simp
qed

text \<open>
  C9 (amended). Let the line map of the parser hold line numbers of its input, as the map
  that \<^verbatim>\<open>execute\<close> installs does, and let an exception of the run have a traceback. When an
  output destination \<open>d\<close> is given and the generated source is not written to \<open>d\<close>
  itself, the lines the program gives to \<^verbatim>\<open>_PRINT\<close> go to the file \<open>d.tmp\<close>.
  Before the last event the destination holds what it held, whatever that was. When the
  run succeeds the last event renames \<open>d.tmp\<close> onto \<open>d\<close>, which then holds all the output,
  and \<open>d.tmp\<close> is gone; when the run fails, by a syntax error or by any exception, the
  last event removes \<open>d.tmp\<close> and the destination still holds what it held.
\<close>

theorem output_through_temporary_file:
  assumes "map_in_range self" and "run_ok run" and "given output_filename = Some d"
    and "(case given filename of None \<Rightarrow> tmpname | Some f \<Rightarrow> f) \<noteq> d"
  shows "\<exists>evs. write_and_execute_python_file self script_text run tmpname filename
                 output_filename = Inr evs
      \<and> (\<forall>k. k < length evs \<longrightarrow> files_after fs (take k evs) d = fs d)
      \<and> (result run = Success
         \<longrightarrow> last evs = Rename (d @ ''.tmp'') d
             \<and> files_after fs evs d
                 = Some (concat (map (\<lambda>line. line @ [nl]) (printed run)))
             \<and> files_after fs evs (d @ ''.tmp'') = None)
      \<and> (result run \<noteq> Success
         \<longrightarrow> last evs = Remove (d @ ''.tmp'')
             \<and> files_after fs evs d = fs d
             \<and> files_after fs evs (d @ ''.tmp'') = None)"
proof -
  define py where "py = (case given filename of None \<Rightarrow> tmpname | Some f \<Rightarrow> f)"
  define t where "t = d @ ''.tmp''"
  define head where "head = [Open_w py, Write py script_text]
      @ (if debug self then [print (''Python executable: '' @ py)] else [])"
  define out where "out = map (\<lambda>line. Write t (line @ [nl])) (printed run)"
  define fin where "fin = (if result run = Success then Rename t d else Remove t)"
  obtain report where rp: "(case result run of
                 Success \<Rightarrow> Inr []
               | Syntax_error lineno exc_name exc_value exception_text \<Rightarrow>
                   report_syntax_error self lineno exc_name exc_value exception_text
               | Exception exc_name exc_value tb_packets \<Rightarrow>
                   report_exception self exc_name exc_value tb_packets) = Inr report"
    and ro: "list_all is_stdout report"
    using report_prints [OF assms(1,2)] by blast
  define pre where "pre = head @ [Open_w t] @ out @ report @ [Close t]"
  have td: "t \<noteq> d" by (simp add: t_def)
  have pd: "py \<noteq> d" using assms(4) by (simp add: py_def)
  have w: "write_and_execute_python_file self script_text run tmpname filename output_filename
      = Inr (pre @ [fin])"
    using assms(3) rp
    by (simp add: write_and_execute_python_file_def Let_def pre_def head_def out_def fin_def
        t_def py_def)
  have nt_head: "list_all (\<lambda>ev. \<not> touches d ev) head"
    using pd by (simp add: head_def print_def)
  have nt_out: "list_all (\<lambda>ev. \<not> touches d ev) out"
    using td by (simp add: out_def list_all_iff)
  have nt_report: "list_all (\<lambda>ev. \<not> touches d ev) report"
    using ro by (auto simp: list_all_iff dest: stdout_touches_nothing)
  have nt_pre: "list_all (\<lambda>ev. \<not> touches d ev) pre"
    using nt_head nt_out nt_report td by (simp add: pre_def)
  have before: "files_after fs (take k (pre @ [fin])) d = fs d" if "k < length (pre @ [fin])" for k
  proof -
    from that have "k \<le> length pre" by simp
    then have "take k (pre @ [fin]) = take k pre" by simp
    moreover have "list_all (\<lambda>ev. \<not> touches d ev) (take k pre)"
      using nt_pre by (auto simp: list_all_iff dest: in_set_takeD)
    ultimately show ?thesis
      by (simp only: files_after_untouched)
  qed
  have pre_d: "files_after fs pre d = fs d"
    using nt_pre by (rule files_after_untouched)
  have tail_t: "list_all (\<lambda>ev. \<not> touches t ev) (report @ [Close t])"
    using ro by (auto simp: list_all_iff dest: stdout_touches_nothing)
  have opened: "files_after fs (head @ [Open_w t]) t = Some []"
    by (simp add: files_after_def)
  have "pre = (head @ [Open_w t]) @ out @ (report @ [Close t])"
    by (simp add: pre_def)
  then have "files_after fs pre t
      = files_after (files_after (files_after fs (head @ [Open_w t])) out) (report @ [Close t]) t"
    by (simp only: files_after_append)
  also have "\<dots> = files_after (files_after fs (head @ [Open_w t])) out t"
    using tail_t by (rule files_after_untouched)
  also have "\<dots> = Some ([] @ concat (map (\<lambda>line. line @ [nl]) (printed run)))"
    unfolding out_def using opened by (rule files_after_written)
  finally have pre_t: "files_after fs pre t
      = Some (concat (map (\<lambda>line. line @ [nl]) (printed run)))"
    by simp
  have success: "last (pre @ [fin]) = Rename (d @ ''.tmp'') d
             \<and> files_after fs (pre @ [fin]) d
                 = Some (concat (map (\<lambda>line. line @ [nl]) (printed run)))
             \<and> files_after fs (pre @ [fin]) (d @ ''.tmp'') = None" if "result run = Success"
  proof -
    have f: "fin = Rename t d" using that by (simp add: fin_def)
    then have "files_after fs (pre @ [fin]) = apply_event (files_after fs pre) (Rename t d)"
      by (simp add: files_after_def)
    with pre_t td f show ?thesis by (simp add: t_def)
  qed
  have failure: "last (pre @ [fin]) = Remove (d @ ''.tmp'')
             \<and> files_after fs (pre @ [fin]) d = fs d
             \<and> files_after fs (pre @ [fin]) (d @ ''.tmp'') = None" if "result run \<noteq> Success"
  proof -
    have f: "fin = Remove t" using that by (simp add: fin_def)
    then have "files_after fs (pre @ [fin]) = apply_event (files_after fs pre) (Remove t)"
      by (simp add: files_after_def)
    with pre_d td f show ?thesis by (simp add: t_def)
  qed
  from w before success failure show ?thesis
    by (intro exI [of _ "pre @ [fin]"]) blast
qed

text \<open>A run that prints one line, with a destination that exists already.\<close>

theorem output_through_temporary_file_witness:
  "write_and_execute_python_file
     \<lparr>debug = False, textlines = [(''${x}'', 1)], parser_line_map = [1 \<mapsto> 1],
      input_filename = ''t.pyp''\<rparr>
     ''_PRINT(x)'' \<lparr>printed = [''5''], result = Success\<rparr> ''/tmp/gen.py'' None
     (Some ''out.txt'')
   = Inr [Open_w ''/tmp/gen.py'', Write ''/tmp/gen.py'' ''_PRINT(x)'', Open_w ''out.txt.tmp'',
          Write ''out.txt.tmp'' (''5'' @ [nl]), Close ''out.txt.tmp'',
          Rename ''out.txt.tmp'' ''out.txt'']
   \<and> files_after [''out.txt'' \<mapsto> ''old'']
        [Open_w ''/tmp/gen.py'', Write ''/tmp/gen.py'' ''_PRINT(x)'', Open_w ''out.txt.tmp'',
         Write ''out.txt.tmp'' (''5'' @ [nl]), Close ''out.txt.tmp'',
         Rename ''out.txt.tmp'' ''out.txt''] ''out.txt''
     = Some (''5'' @ [nl])
   \<and> files_after [''out.txt'' \<mapsto> ''old'']
        [Open_w ''/tmp/gen.py'', Write ''/tmp/gen.py'' ''_PRINT(x)'', Open_w ''out.txt.tmp'',
         Write ''out.txt.tmp'' (''5'' @ [nl]), Close ''out.txt.tmp''] ''out.txt''
     = Some ''old''"
proof -
  let ?self = "\<lparr>debug = False, textlines = [(''${x}'', 1 :: nat)],
      parser_line_map = [1 \<mapsto> 1 :: nat], input_filename = ''t.pyp''\<rparr>"
  let ?run = "\<lparr>printed = [''5''], result = Success\<rparr>"
  let ?E = "[Open_w ''/tmp/gen.py'', Write ''/tmp/gen.py'' ''_PRINT(x)'', Open_w ''out.txt.tmp'',
          Write ''out.txt.tmp'' (''5'' @ [nl]), Close ''out.txt.tmp'',
          Rename ''out.txt.tmp'' ''out.txt'']"
  let ?fs = "[''out.txt'' \<mapsto> ''old'']"
  have h: "map_in_range ?self" "run_ok ?run" "given (Some ''out.txt'') = Some ''out.txt''"
    "(case given None of None \<Rightarrow> ''/tmp/gen.py'' | Some f \<Rightarrow> f) \<noteq> ''out.txt''"
    by (auto simp: map_in_range_def run_ok_def given_def split: if_splits)
  have e: "write_and_execute_python_file ?self ''_PRINT(x)'' ?run ''/tmp/gen.py'' None
      (Some ''out.txt'') = Inr ?E"
    by code_simp
  obtain evs where w: "write_and_execute_python_file ?self ''_PRINT(x)'' ?run ''/tmp/gen.py'' None
      (Some ''out.txt'') = Inr evs"
    and b: "\<forall>k. k < length evs \<longrightarrow> files_after ?fs (take k evs) ''out.txt'' = ?fs ''out.txt''"
    and s: "result ?run = Success
         \<longrightarrow> last evs = Rename (''out.txt'' @ ''.tmp'') ''out.txt''
             \<and> files_after ?fs evs ''out.txt''
                 = Some (concat (map (\<lambda>line. line @ [nl]) (printed ?run)))
             \<and> files_after ?fs evs (''out.txt'' @ ''.tmp'') = None"
    using output_through_temporary_file [OF h, of "''_PRINT(x)''" ?fs] by blast
  from w e have evs: "evs = ?E" by simp
  have 1: "files_after ?fs ?E ''out.txt'' = Some (''5'' @ [nl])"
    using s unfolding evs by simp
  have "files_after ?fs (take 5 ?E) ''out.txt'' = ?fs ''out.txt''"
    using b [unfolded evs, rule_format, of 5] by simp
  then have 2: "files_after ?fs
        [Open_w ''/tmp/gen.py'', Write ''/tmp/gen.py'' ''_PRINT(x)'', Open_w ''out.txt.tmp'',
         Write ''out.txt.tmp'' (''5'' @ [nl]), Close ''out.txt.tmp''] ''out.txt'' = Some ''old''"
    by simp
  from e 1 2 show ?thesis by simp
qed

text \<open>
  The claim as it was stated fails when the generated source is dumped to the
  destination itself (the options \<^verbatim>\<open>-o out.txt -p out.txt\<close>): the run fails, and the
  destination, which did not exist, holds the generated module.
\<close>

theorem output_through_temporary_file_counterexample:
  "execute (new_PYPParser ''${x}'' False ''t.pyp'')
     (\<lambda>script. \<lparr>printed = [],
        result = Exception ''NameError'' ''name x is not defined''
                   [(''out.txt'', 1, ''<module>'', Some ''_PRINT(x)'')]\<rparr>)
     ''/tmp/gen.py'' (Some ''out.txt'') (Some ''out.txt'')
   = ([Open_w ''out.txt'',
       Write ''out.txt'' (''_PRINT('' @ [sq] @ ''%s'' @ [sq] @ '' % ((x),))''),
       Open_w ''out.txt.tmp'',
       print [],
       print ''======= ERROR INFO ================'',
       print (''File '' @ [dq] @ ''t.pyp'' @ [dq] @ '', line 1''),
       print ''  ${x}'',
       print ''NameError: name x is not defined'',
       print ''==================================='',
       Close ''out.txt.tmp'',
       Remove ''out.txt.tmp''], Returned)
   \<and> files_after Map.empty
        (fst (execute (new_PYPParser ''${x}'' False ''t.pyp'')
                (\<lambda>script. \<lparr>printed = [],
                   result = Exception ''NameError'' ''name x is not defined''
                              [(''out.txt'', 1, ''<module>'', Some ''_PRINT(x)'')]\<rparr>)
                ''/tmp/gen.py'' (Some ''out.txt'') (Some ''out.txt'')))
        ''out.txt''
     = Some (''_PRINT('' @ [sq] @ ''%s'' @ [sq] @ '' % ((x),))'')"
proof -
  have e: "execute (new_PYPParser ''${x}'' False ''t.pyp'')
     (\<lambda>script. \<lparr>printed = [],
        result = Exception ''NameError'' ''name x is not defined''
                   [(''out.txt'', 1, ''<module>'', Some ''_PRINT(x)'')]\<rparr>)
     ''/tmp/gen.py'' (Some ''out.txt'') (Some ''out.txt'')
   = ([Open_w ''out.txt'',
       Write ''out.txt'' (''_PRINT('' @ [sq] @ ''%s'' @ [sq] @ '' % ((x),))''),
       Open_w ''out.txt.tmp'',
       print [],
       print ''======= ERROR INFO ================'',
       print (''File '' @ [dq] @ ''t.pyp'' @ [dq] @ '', line 1''),
       print ''  ${x}'',
       print ''NameError: name x is not defined'',
       print ''==================================='',
       Close ''out.txt.tmp'',
       Remove ''out.txt.tmp''], Returned)"
    by code_simp
  show ?thesis
    unfolding e by (simp add: files_after_def print_def)
qed


end
